theory Spec2Isabelle
  imports Main "HOL-Library.Multiset" "HOL-Library.Sublist" "HOL-Library.AList"
begin

section \<open>Health monitor (package health)\<close>

text \<open>
  \<^verbatim>\<open>HealthStatus\<close> is the Go enumeration \<^verbatim>\<open>Healthy, Degraded, Unhealthy\<close>.
  A \<^verbatim>\<open>ComponentHealth\<close> keeps the fields that are data; the probe closure
  \<^verbatim>\<open>HealthChecker\<close> is not part of the record. Times are nanosecond counts.
  The Go map \<^verbatim>\<open>components\<close> is an association list: the list order stands for the
  iteration order of the map, which the Go runtime chooses.
\<close>

datatype HealthStatus = Healthy | Degraded | Unhealthy

record ComponentHealth =
  ch_Name :: string
  ch_Status :: HealthStatus
  ch_LastCheckTime :: int
  ch_ErrorCount :: int
  ch_LastError :: "string option"
  ch_CheckInterval :: int

record HealthMonitor =
  hm_components :: "(string \<times> ComponentHealth) list"

definition NewHealthMonitor :: HealthMonitor where
  "NewHealthMonitor = \<lparr> hm_components = [] \<rparr>"

text \<open>The loop of \<^verbatim>\<open>GetOverallHealth\<close>, with \<^verbatim>\<open>overallStatus\<close> as accumulator.\<close>

fun overall_loop :: "HealthStatus \<Rightarrow> (string \<times> ComponentHealth) list \<Rightarrow> HealthStatus" where
  "overall_loop overallStatus [] = overallStatus"
| "overall_loop overallStatus ((name, component) # rest) =
     (if ch_Status component = Unhealthy then Unhealthy
      else if ch_Status component = Degraded then overall_loop Degraded rest
      else overall_loop overallStatus rest)"

definition GetOverallHealth :: "HealthMonitor \<Rightarrow> HealthStatus" where
  "GetOverallHealth hm = overall_loop Healthy (hm_components hm)"

text \<open>\<^verbatim>\<open>healthHandler\<close> answers with a status code and a body.\<close>

definition healthHandler :: "HealthMonitor \<Rightarrow> nat \<times> string" where
  \<open>healthHandler hm =
     (case GetOverallHealth hm of
        Healthy \<Rightarrow> (200, ''{"status":"healthy"}'')
      | Degraded \<Rightarrow> (200, ''{"status":"degraded"}'')
      | Unhealthy \<Rightarrow> (503, ''{"status":"unhealthy"}''))\<close>

section \<open>Rendered configuration (package docker, generator)\<close>

text \<open>
  Go maps with string keys and values are association lists with distinct keys
  (\<^verbatim>\<open>map_of\<close> looks a key up, \<^verbatim>\<open>AList.update\<close> stores one). Go's \<^verbatim>\<open>int\<close> is
  modelled by \<^typ>\<open>int\<close>; strings are byte lists, so \<^verbatim>\<open>len\<close> is \<^const>\<open>length\<close>.
\<close>

type_synonym strmap = "(string \<times> string) list"

record CORSConfig =
  cors_Enabled :: bool
  cors_AllowOrigins :: "string list"
  cors_AllowMethods :: "string list"
  cors_AllowHeaders :: "string list"
  cors_AllowCredentials :: bool

record FastCGILocationConfig =
  fl_Enabled :: bool
  fl_Pass :: string
  fl_Index :: string
  fl_Params :: strmap

record LocationConfig =
  loc_Path :: string
  loc_Upstream :: string
  loc_Priority :: int
  loc_ProxyPass :: string
  loc_Auth :: bool
  loc_AuthType :: string
  loc_CORS :: CORSConfig
  loc_ProxyHeaders :: strmap
  loc_ConfigurationSnippet :: string
  loc_FastCGI :: FastCGILocationConfig

record UpstreamServer =
  us_Address :: string
  us_Weight :: int
  us_Backup :: bool

record UpstreamConfig =
  up_Name :: string
  up_Method :: string
  up_Servers :: "UpstreamServer list"
  up_HealthCheck :: bool
  up_HealthPath :: string

record SSLConfig =
  ssl_Enabled :: bool
  ssl_Certificate :: string
  ssl_PrivateKey :: string
  ssl_Protocols :: "string list"

record ServerConfig =
  sv_ServerName :: string
  sv_Listen :: "string list"
  sv_SSL :: SSLConfig
  sv_Locations :: "LocationConfig list"
  sv_ServerSnippet :: string

record NginxConfig =
  nc_Upstreams :: "UpstreamConfig list"
  nc_Servers :: "ServerConfig list"
  nc_Generated :: int

subsection \<open>sortLocationsByPriority\<close>







section \<open>Go strings (packages strings, strconv, fmt, bufio)\<close>

text \<open>
  A Go string is its byte list. The library functions are modelled on bytes: only the
  ASCII letters are case-mapped and only the ASCII white space \<^verbatim>\<open>\t \n \v \f \r ' '\<close>
  counts as space; separators are single bytes, as at every call site of the program.
\<close>

definition HasPrefix :: "string \<Rightarrow> string \<Rightarrow> bool" where
  "HasPrefix s p = prefix p s"

definition HasSuffix :: "string \<Rightarrow> string \<Rightarrow> bool" where
  "HasSuffix s p = suffix p s"

fun Contains :: "string \<Rightarrow> string \<Rightarrow> bool" where
  "Contains [] sub = (sub = [])"
| "Contains (c # cs) sub = (if prefix sub (c # cs) then True else Contains cs sub)"

definition ReplaceAll :: "string \<Rightarrow> char \<Rightarrow> string \<Rightarrow> string" where
  "ReplaceAll s old new = concat (map (\<lambda>c. if c = old then new else [c]) s)"

definition Trim :: "string \<Rightarrow> string \<Rightarrow> string" where
  "Trim s cutset =
     rev (dropWhile (\<lambda>c. c \<in> set cutset) (rev (dropWhile (\<lambda>c. c \<in> set cutset) s)))"

definition is_space :: "char \<Rightarrow> bool" where
  "is_space c =
     (c = CHR 0x09 \<or> c = CHR 0x0A \<or> c = CHR 0x0B \<or> c = CHR 0x0C \<or> c = CHR 0x0D \<or> c = CHR '' '')"

definition TrimSpace :: "string \<Rightarrow> string" where
  "TrimSpace s = rev (dropWhile is_space (rev (dropWhile is_space s)))"

definition TrimSuffix :: "string \<Rightarrow> string \<Rightarrow> string" where
  "TrimSuffix s suf = (if suffix suf s then take (length s - length suf) s else s)"

definition is_lower :: "char \<Rightarrow> bool" where
  "is_lower c = (97 \<le> (of_char c :: nat) \<and> (of_char c :: nat) \<le> 122)"

definition is_upper :: "char \<Rightarrow> bool" where
  "is_upper c = (65 \<le> (of_char c :: nat) \<and> (of_char c :: nat) \<le> 90)"

text \<open>An ASCII letter changes case by its bit 5.\<close>

definition to_upper_byte :: "char \<Rightarrow> char" where
  "to_upper_byte c =
     (if is_lower c
      then Char (digit0 c) (digit1 c) (digit2 c) (digit3 c) (digit4 c) False (digit6 c) (digit7 c)
      else c)"

definition to_lower_byte :: "char \<Rightarrow> char" where
  "to_lower_byte c =
     (if is_upper c
      then Char (digit0 c) (digit1 c) (digit2 c) (digit3 c) (digit4 c) True (digit6 c) (digit7 c)
      else c)"

definition ToUpper :: "string \<Rightarrow> string" where
  "ToUpper s = map to_upper_byte s"

definition ToLower :: "string \<Rightarrow> string" where
  "ToLower s = map to_lower_byte s"

text \<open>\<^verbatim>\<open>strings.Split(s, sep)\<close> for a one-byte separator; the empty string gives one empty piece.\<close>

fun Split :: "string \<Rightarrow> char \<Rightarrow> string list" where
  "Split [] sep = [[]]"
| "Split (c # cs) sep =
     (if c = sep then [] # Split cs sep
      else (case Split cs sep of [] \<Rightarrow> [[c]] | w # ws \<Rightarrow> (c # w) # ws))"

text \<open>\<^verbatim>\<open>strings.SplitN(s, sep, 2)\<close>: cut at the first separator, if there is one.\<close>

definition SplitN2 :: "string \<Rightarrow> char \<Rightarrow> string list" where
  "SplitN2 s sep =
     (if sep \<in> set s
      then [takeWhile (\<lambda>c. c \<noteq> sep) s, tl (dropWhile (\<lambda>c. c \<noteq> sep) s)]
      else [s])"

fun fields_from :: "string \<Rightarrow> string \<Rightarrow> string list" where
  "fields_from cur [] = (if cur = [] then [] else [cur])"
| "fields_from cur (c # cs) =
     (if is_space c then (if cur = [] then fields_from [] cs else cur # fields_from [] cs)
      else fields_from (cur @ [c]) cs)"

definition Fields :: "string \<Rightarrow> string list" where
  "Fields s = fields_from [] s"

fun Join :: "string list \<Rightarrow> string \<Rightarrow> string" where
  "Join [] sep = []"
| "Join [x] sep = x"
| "Join (x # y # ys) sep = x @ sep @ Join (y # ys) sep"

text \<open>
  \<^verbatim>\<open>strconv.Atoi\<close>: an optional sign and decimal digits, within the 64-bit range of
  Go's \<^verbatim>\<open>int\<close>; anything else is an error.
\<close>

definition is_digit :: "char \<Rightarrow> bool" where
  "is_digit c = (48 \<le> (of_char c :: nat) \<and> (of_char c :: nat) \<le> 57)"

definition digits_value :: "string \<Rightarrow> nat" where
  "digits_value ds = foldl (\<lambda>acc c. 10 * acc + ((of_char c :: nat) - 48)) 0 ds"

definition Atoi :: "string \<Rightarrow> int option" where
  "Atoi s =
     (let neg = (case s of [] \<Rightarrow> False | c # _ \<Rightarrow> c = CHR ''-'');
          ds = (case s of [] \<Rightarrow> [] | c # r \<Rightarrow> if c = CHR ''-'' \<or> c = CHR ''+'' then r else s)
      in if ds = [] then None
         else if list_all is_digit ds
         then (let v = (if neg then - int (digits_value ds) else int (digits_value ds))
               in if v < - (2 ^ 63) then None else if v > 2 ^ 63 - 1 then None else Some v)
         else None)"

text \<open>The decimal text of an integer, as \<^verbatim>\<open>%d\<close> prints it.\<close>

definition digit_char :: "nat \<Rightarrow> char" where
  "digit_char d = (''0123456789'' ! d)"

fun nat_digits :: "nat \<Rightarrow> string" where
  "nat_digits n =
     (if n < 10 then [digit_char n] else nat_digits (n div 10) @ [digit_char (n mod 10)])"

declare nat_digits.simps [simp del]

definition Itoa :: "int \<Rightarrow> string" where
  "Itoa i = (if i < 0 then CHR ''-'' # nat_digits (nat (- i)) else nat_digits (nat i))"

text \<open>
  The lines a \<^verbatim>\<open>bufio.Scanner\<close> reads: the text cut at every newline, with no
  empty last line (\<^verbatim>\<open>scan_lines\<close>); the token it yields for a line has a carriage
  return before the newline dropped (\<^verbatim>\<open>drop_cr\<close>). A line of 65536 bytes or more does
  not fit the scanner's buffer.
\<close>

definition drop_cr :: "string \<Rightarrow> string" where
  "drop_cr l = (if l = [] then l else if last l = CHR 0x0D then butlast l else l)"

definition scan_lines :: "string \<Rightarrow> string list" where
  "scan_lines content =
     (let ls = Split content (CHR 0x0A)
      in if last ls = [] then butlast ls else ls)"

definition MaxScanTokenSize :: nat where
  "MaxScanTokenSize = 65536"

section \<open>Label model (package docker, labels)\<close>

definition LabelPrefix :: string where "LabelPrefix = ''nginx.ingress''"
definition LabelEnable :: string where "LabelEnable = LabelPrefix @ ''.enable''"
definition LabelHost :: string where "LabelHost = LabelPrefix @ ''.host''"
definition LabelPort :: string where "LabelPort = LabelPrefix @ ''.port''"
definition LabelPath :: string where "LabelPath = LabelPrefix @ ''.path''"
definition LabelProtocol :: string where "LabelProtocol = LabelPrefix @ ''.protocol''"
definition LabelTLS :: string where "LabelTLS = LabelPrefix @ ''.tls''"
definition LabelCertName :: string where "LabelCertName = LabelPrefix @ ''.tls.certname''"
definition LabelPriority :: string where "LabelPriority = LabelPrefix @ ''.priority''"
definition LabelRule :: string where "LabelRule = LabelPrefix @ ''.rule''"
definition LabelMethod :: string where "LabelMethod = LabelPrefix @ ''.loadbalancer.method''"
definition LabelHealthCheck :: string where "LabelHealthCheck = LabelPrefix @ ''.healthcheck''"
definition LabelHealthCheckPath :: string where
  "LabelHealthCheckPath = LabelPrefix @ ''.healthcheck.path''"
definition LabelAuth :: string where "LabelAuth = LabelPrefix @ ''.auth''"
definition LabelCORS :: string where "LabelCORS = LabelPrefix @ ''.cors''"
definition LabelConfigurationSnippet :: string where
  "LabelConfigurationSnippet = LabelPrefix @ ''.configuration-snippet''"
definition LabelServerSnippet :: string where
  "LabelServerSnippet = LabelPrefix @ ''.server-snippet''"
definition LabelBackendProtocol :: string where
  "LabelBackendProtocol = LabelPrefix @ ''.backend-protocol''"
definition LabelFastCGIIndex :: string where
  "LabelFastCGIIndex = LabelPrefix @ ''.fastcgi-index''"
definition LabelFastCGIParams :: string where
  "LabelFastCGIParams = LabelPrefix @ ''.fastcgi-params''"
definition LabelFastCGIParamsFile :: string where
  "LabelFastCGIParamsFile = LabelPrefix @ ''.fastcgi-params-file''"

definition DefaultProtocol :: string where "DefaultProtocol = ''http''"
definition DefaultPath :: string where "DefaultPath = ''/''"
definition DefaultPriority :: int where "DefaultPriority = 100"

record LoadBalancerConfig =
  lb_Method :: string

record HealthCheckConfig =
  hc_Enabled :: bool
  hc_Path :: string

record AuthConfig =
  auth_Enabled :: bool
  auth_Type :: string
  auth_Realm :: string
  auth_Users :: "string list"

record MiddlewareConfig =
  mw_Auth :: AuthConfig
  mw_CORS :: CORSConfig

record FastCGIConfig =
  fc_Enabled :: bool
  fc_BackendProtocol :: string
  fc_Index :: string
  fc_Params :: strmap
  fc_ParamsFile :: string

record ContainerConfig =
  cc_ContainerID :: string
  cc_ContainerName :: string
  cc_NetworkIP :: string
  cc_Enabled :: bool
  cc_Host :: string
  cc_Port :: int
  cc_Path :: string
  cc_Protocol :: string
  cc_Priority :: int
  cc_Rule :: string
  cc_TLS :: bool
  cc_CertName :: string
  cc_LoadBalancer :: LoadBalancerConfig
  cc_HealthCheck :: HealthCheckConfig
  cc_Middleware :: MiddlewareConfig
  cc_ConfigurationSnippet :: string
  cc_ServerSnippet :: string
  cc_FastCGI :: FastCGIConfig

text \<open>The zero values of the structs, as a Go composite literal leaves the fields it omits.\<close>

definition zero_CORSConfig :: CORSConfig where
  "zero_CORSConfig = \<lparr> cors_Enabled = False, cors_AllowOrigins = [], cors_AllowMethods = [],
     cors_AllowHeaders = [], cors_AllowCredentials = False \<rparr>"

definition zero_AuthConfig :: AuthConfig where
  "zero_AuthConfig = \<lparr> auth_Enabled = False, auth_Type = [], auth_Realm = [], auth_Users = [] \<rparr>"

definition zero_FastCGIConfig :: FastCGIConfig where
  "zero_FastCGIConfig = \<lparr> fc_Enabled = False, fc_BackendProtocol = [], fc_Index = [],
     fc_Params = [], fc_ParamsFile = [] \<rparr>"

text \<open>Reading a Go map at a key it does not hold gives the empty string.\<close>

definition label_or_empty :: "strmap \<Rightarrow> string \<Rightarrow> string" where
  "label_or_empty labels key = (case map_of labels key of None \<Rightarrow> [] | Some v \<Rightarrow> v)"

definition parseBool :: "string \<Rightarrow> bool" where
  "parseBool v = (let l = ToLower v in l = ''true'' \<or> l = ''1'' \<or> l = ''yes'' \<or> l = ''on'')"

definition extractLoadBalancerConfig :: "strmap \<Rightarrow> LoadBalancerConfig" where
  "extractLoadBalancerConfig labels =
     (case map_of labels LabelMethod of
        None \<Rightarrow> \<lparr> lb_Method = ''round_robin'' \<rparr>
      | Some method \<Rightarrow>
          (if method = ''round_robin'' \<or> method = ''least_conn'' \<or> method = ''ip_hash''
           then \<lparr> lb_Method = method \<rparr> else \<lparr> lb_Method = ''round_robin'' \<rparr>))"

definition extractHealthCheckConfig :: "strmap \<Rightarrow> HealthCheckConfig" where
  "extractHealthCheckConfig labels =
     (let config = \<lparr> hc_Enabled = parseBool (label_or_empty labels LabelHealthCheck),
                      hc_Path = ''/health'' \<rparr>
      in case map_of labels LabelHealthCheckPath of
           None \<Rightarrow> config
         | Some path \<Rightarrow> config \<lparr> hc_Path := path \<rparr>)"

definition extractMiddlewareConfig :: "strmap \<Rightarrow> MiddlewareConfig" where
  "extractMiddlewareConfig labels =
     (let auth = (case map_of labels LabelAuth of
                    None \<Rightarrow> zero_AuthConfig
                  | Some authType \<Rightarrow> zero_AuthConfig \<lparr> auth_Enabled := True, auth_Type := authType \<rparr>);
          cors = (if parseBool (label_or_empty labels LabelCORS)
                  then (let c1 = zero_CORSConfig \<lparr> cors_Enabled := True \<rparr>;
                            c2 = (case map_of labels (LabelCORS @ ''.origins'') of
                                    None \<Rightarrow> c1
                                  | Some origins \<Rightarrow> c1 \<lparr> cors_AllowOrigins := Split origins (CHR '','') \<rparr>)
                        in case map_of labels (LabelCORS @ ''.methods'') of
                             None \<Rightarrow> c2
                           | Some methods \<Rightarrow> c2 \<lparr> cors_AllowMethods := Split methods (CHR '','') \<rparr>)
                  else zero_CORSConfig)
      in \<lparr> mw_Auth = auth, mw_CORS = cors \<rparr>)"

text \<open>
  \<^verbatim>\<open>parseFastCGIParams\<close>: comma-separated \<^verbatim>\<open>key=value\<close> pairs, a later pair
  overwriting an earlier one with the same key.
\<close>

fun parse_pairs :: "strmap \<Rightarrow> string list \<Rightarrow> strmap" where
  "parse_pairs params [] = params"
| "parse_pairs params (pair # pairs) =
     (case SplitN2 (TrimSpace pair) (CHR ''='') of
        [k, v] \<Rightarrow> parse_pairs (AList.update (TrimSpace k) (TrimSpace v) params) pairs
      | _ \<Rightarrow> parse_pairs params pairs)"

definition parseFastCGIParams :: "string \<Rightarrow> strmap" where
  "parseFastCGIParams paramStr =
     (if paramStr = [] then [] else parse_pairs [] (Split paramStr (CHR '','')))"

definition extractFastCGIConfig :: "strmap \<Rightarrow> FastCGIConfig" where
  "extractFastCGIConfig labels =
     (let c1 = (case map_of labels LabelBackendProtocol of
                  None \<Rightarrow> zero_FastCGIConfig
                | Some backendProtocol \<Rightarrow>
                    (if ToUpper backendProtocol = ''FCGI''
                     then zero_FastCGIConfig \<lparr> fc_Enabled := True, fc_BackendProtocol := backendProtocol \<rparr>
                     else zero_FastCGIConfig \<lparr> fc_BackendProtocol := backendProtocol \<rparr>));
          c2 = (case map_of labels LabelFastCGIIndex of
                  None \<Rightarrow> c1 | Some index \<Rightarrow> c1 \<lparr> fc_Index := index \<rparr>);
          c3 = (case map_of labels LabelFastCGIParams of
                  None \<Rightarrow> c2 | Some params \<Rightarrow> c2 \<lparr> fc_Params := parseFastCGIParams params \<rparr>)
      in case map_of labels LabelFastCGIParamsFile of
           None \<Rightarrow> c3 | Some paramsFile \<Rightarrow> c3 \<lparr> fc_ParamsFile := paramsFile \<rparr>)"

text \<open>
  An error of the program is the text of a Go \<^verbatim>\<open>error\<close> (\<^verbatim>\<open>fmt.Errorf\<close> with \<^verbatim>\<open>%w\<close>
  prepends to the text of the cause), or a run-time panic.
\<close>

datatype error = Err string | Panic

definition initial_ContainerConfig :: "string \<Rightarrow> string \<Rightarrow> string \<Rightarrow> ContainerConfig" where
  "initial_ContainerConfig containerID containerName networkIP =
     \<lparr> cc_ContainerID = containerID, cc_ContainerName = containerName, cc_NetworkIP = networkIP,
       cc_Enabled = False, cc_Host = [], cc_Port = 80, cc_Path = DefaultPath,
       cc_Protocol = DefaultProtocol, cc_Priority = DefaultPriority, cc_Rule = [],
       cc_TLS = False, cc_CertName = [],
       cc_LoadBalancer = \<lparr> lb_Method = [] \<rparr>,
       cc_HealthCheck = \<lparr> hc_Enabled = False, hc_Path = [] \<rparr>,
       cc_Middleware = \<lparr> mw_Auth = zero_AuthConfig, mw_CORS = zero_CORSConfig \<rparr>,
       cc_ConfigurationSnippet = [], cc_ServerSnippet = [],
       cc_FastCGI = zero_FastCGIConfig \<rparr>"

text \<open>The part of \<^verbatim>\<open>ExtractConfig\<close> after the port, which cannot fail but on the protocol.\<close>

definition extract_rest :: "string \<Rightarrow> strmap \<Rightarrow> ContainerConfig \<Rightarrow> error + ContainerConfig" where
  "extract_rest containerName labels c0 =
     (case (case map_of labels LabelProtocol of
              None \<Rightarrow> Inr c0
            | Some protocol \<Rightarrow>
                (if protocol = ''http'' \<or> protocol = ''https''
                 then Inr (c0 \<lparr> cc_Protocol := protocol \<rparr>)
                 else Inl (Err (''container '' @ containerName @ '': invalid protocol '' @ protocol @
                                '', must be http or https''))))
      of Inl e \<Rightarrow> Inl e
       | Inr c1 \<Rightarrow>
          (let c2 = (case map_of labels LabelPath of
                       None \<Rightarrow> c1 | Some path \<Rightarrow> c1 \<lparr> cc_Path := path \<rparr>);
               c3 = (case map_of labels LabelPriority of
                       None \<Rightarrow> c2
                     | Some priorityStr \<Rightarrow>
                         (case Atoi priorityStr of
                            None \<Rightarrow> c2 | Some priority \<Rightarrow> c2 \<lparr> cc_Priority := priority \<rparr>));
               c4 = (case map_of labels LabelRule of
                       None \<Rightarrow> c3 | Some rule \<Rightarrow> c3 \<lparr> cc_Rule := rule \<rparr>);
               c5 = c4 \<lparr> cc_TLS := parseBool (label_or_empty labels LabelTLS) \<rparr>;
               c6 = (case map_of labels LabelCertName of
                       None \<Rightarrow> c5 | Some certName \<Rightarrow> c5 \<lparr> cc_CertName := certName \<rparr>);
               c7 = c6 \<lparr> cc_LoadBalancer := extractLoadBalancerConfig labels,
                          cc_HealthCheck := extractHealthCheckConfig labels,
                          cc_Middleware := extractMiddlewareConfig labels \<rparr>;
               c8 = (case map_of labels LabelConfigurationSnippet of
                       None \<Rightarrow> c7
                     | Some configSnippet \<Rightarrow> c7 \<lparr> cc_ConfigurationSnippet := configSnippet \<rparr>);
               c9 = (case map_of labels LabelServerSnippet of
                       None \<Rightarrow> c8
                     | Some serverSnippet \<Rightarrow> c8 \<lparr> cc_ServerSnippet := serverSnippet \<rparr>)
           in Inr (c9 \<lparr> cc_FastCGI := extractFastCGIConfig labels \<rparr>)))"

definition ExtractConfig ::
  "string \<Rightarrow> string \<Rightarrow> string \<Rightarrow> strmap \<Rightarrow> error + ContainerConfig" where
  "ExtractConfig containerID containerName networkIP labels =
     (let config = initial_ContainerConfig containerID containerName networkIP
      in case map_of labels LabelEnable of
           None \<Rightarrow> Inr config
         | Some enabled \<Rightarrow>
             (if parseBool enabled
              then (case map_of labels LabelHost of
                      None \<Rightarrow> Inl (Err (''container '' @ containerName @ '': '' @ LabelHost @
                                        '' label is required when nginx ingress is enabled''))
                    | Some host \<Rightarrow>
                        (let c0 = config \<lparr> cc_Enabled := True, cc_Host := host \<rparr>
                         in case map_of labels LabelPort of
                              None \<Rightarrow> extract_rest containerName labels c0
                            | Some portStr \<Rightarrow>
                                (case Atoi portStr of
                                   None \<Rightarrow> Inl (Err (''container '' @ containerName @
                                                     '': invalid port '' @ portStr))
                                 | Some port \<Rightarrow>
                                     (if port > 0 \<and> port \<le> 65535
                                      then extract_rest containerName labels (c0 \<lparr> cc_Port := port \<rparr>)
                                      else Inl (Err (''container '' @ containerName @
                                                     '': invalid port '' @ portStr))))))
              else Inr config))"

definition ValidateConfig :: "ContainerConfig \<Rightarrow> error option" where
  "ValidateConfig config =
     (if cc_Enabled config then
        (if cc_Host config = [] then Some (Err ''host is required when nginx ingress is enabled'')
         else if cc_Port config \<le> 0 \<or> cc_Port config > 65535
         then Some (Err (''invalid port '' @ Itoa (cc_Port config)))
         else if cc_Protocol config \<noteq> ''http'' \<and> cc_Protocol config \<noteq> ''https''
         then Some (Err (''invalid protocol '' @ cc_Protocol config))
         else if fc_Enabled (cc_FastCGI config) \<and> fc_BackendProtocol (cc_FastCGI config) \<noteq> ''FCGI''
         then Some (Err (''backend-protocol must be '' @ [CHR 0x27] @ ''FCGI'' @ [CHR 0x27] @
                        '' when FastCGI is enabled''))
         else if HasPrefix (cc_Path config) ''/'' then None
         else Some (Err (''path must start with '' @ [CHR 0x27] @ ''/'' @ [CHR 0x27])))
      else None)"

subsection \<open>Helpers of the label documentation file\<close>

text \<open>The loop of \<^verbatim>\<open>ValidateHostname\<close> over the dot-separated parts.\<close>

fun hostname_parts :: "string list \<Rightarrow> error option" where
  "hostname_parts [] = None"
| "hostname_parts (part # parts) =
     (if length part = 0 then Some (Err ''hostname cannot have empty parts'')
      else if length part > 63
      then Some (Err (''hostname part '' @ [CHR 0x27] @ part @ [CHR 0x27] @ '' too long (max 63 characters)''))
      else hostname_parts parts)"

definition ValidateHostname :: "string \<Rightarrow> error option" where
  "ValidateHostname hostname =
     (if hostname = [] then Some (Err ''hostname cannot be empty'')
      else if length hostname > 253 then Some (Err ''hostname too long (max 253 characters)'')
      else if HasPrefix hostname ''.'' \<or> HasSuffix hostname ''.''
      then Some (Err ''hostname cannot start or end with a dot'')
      else hostname_parts (Split hostname (CHR ''.'')))"

definition SanitizeContainerName :: "string \<Rightarrow> string" where
  "SanitizeContainerName name =
     (let s1 = ReplaceAll name (CHR ''-'') ''_'';
          s2 = ReplaceAll s1 (CHR ''.'') ''_'';
          s3 = ReplaceAll s2 (CHR ''/'') ''_'';
          s4 = Trim s3 ''_''
      in if s4 = [] then ''unnamed'' else s4)"

section \<open>The world outside the program\<close>

text \<open>
  The state the program changes: the file system (path to content), the record of the
  \<^verbatim>\<open>CopyFromContainer\<close> calls issued to the container runtime, and the text printed
  by \<^verbatim>\<open>fmt.Printf\<close>, one entry per call.
\<close>

record World =
  w_files :: "string \<Rightarrow> string option"
  w_copy_calls :: "(string \<times> string) list"
  w_stdout :: "string list"

text \<open>
  What the outside answers. An error of the outside is its text. A copy from a container
  is refused, or gives a stream whose reading fails or delivers bytes. A write opens the
  file (creating or truncating it) and then writes: it can fail before the file is
  opened, or after some bytes were written. \<^verbatim>\<open>sha256_hex\<close> is the hexadecimal
  SHA-256 digest. \<^verbatim>\<open>RenderNginxConfig\<close> executes a template file that is read at run
  time; its result for a configuration and a template path is an answer of the outside.
\<close>

datatype write_outcome = Written | OpenFailed string | WriteFailed nat string

record ContainerSummary =
  cs_ID :: string
  cs_Names :: "string list"
  cs_Labels :: strmap
  cs_Status :: string

record InspectResponse =
  ir_Networks :: "(string \<times> string) list"
  ir_IPAddress :: string

record Runtime =
  rt_ContainerList :: "string + ContainerSummary list"
  rt_ContainerInspect :: "string \<Rightarrow> string + InspectResponse"
  rt_CopyFromContainer :: "string \<Rightarrow> string \<Rightarrow> string + (string + string)"
  rt_sha256_hex :: "string \<Rightarrow> string"
  rt_ReadFile_error :: "string \<Rightarrow> string option"
  rt_MkdirAll_error :: "string \<Rightarrow> string option"
  rt_WriteFile_outcome :: "string \<Rightarrow> string \<Rightarrow> write_outcome"
  rt_Rename_error :: "string \<Rightarrow> string \<Rightarrow> string option"
  rt_RenderNginxConfig :: "NginxConfig \<Rightarrow> string \<Rightarrow> string + string"

definition wrap :: "string \<Rightarrow> error \<Rightarrow> error" where
  "wrap msg e = (case e of Err cause \<Rightarrow> Err (msg @ cause) | Panic \<Rightarrow> Panic)"

definition Printf :: "string \<Rightarrow> World \<Rightarrow> World" where
  "Printf text w = w \<lparr> w_stdout := w_stdout w @ [text] \<rparr>"

definition os_WriteFile :: "Runtime \<Rightarrow> string \<Rightarrow> string \<Rightarrow> World \<Rightarrow> string option \<times> World" where
  "os_WriteFile rt name data w =
     (case rt_WriteFile_outcome rt name data of
        Written \<Rightarrow> (None, w \<lparr> w_files := (w_files w)(name \<mapsto> data) \<rparr>)
      | OpenFailed e \<Rightarrow> (Some e, w)
      | WriteFailed n e \<Rightarrow> (Some e, w \<lparr> w_files := (w_files w)(name \<mapsto> take n data) \<rparr>))"

definition os_ReadFile :: "Runtime \<Rightarrow> string \<Rightarrow> World \<Rightarrow> string + string" where
  "os_ReadFile rt name w =
     (case rt_ReadFile_error rt name of
        Some e \<Rightarrow> Inl e
      | None \<Rightarrow> (case w_files w name of
                   None \<Rightarrow> Inl (''open '' @ name @ '': no such file or directory'')
                 | Some content \<Rightarrow> Inr content))"

definition os_Rename :: "Runtime \<Rightarrow> string \<Rightarrow> string \<Rightarrow> World \<Rightarrow> string option \<times> World" where
  "os_Rename rt oldpath newpath w =
     (case rt_Rename_error rt oldpath newpath of
        Some e \<Rightarrow> (Some e, w)
      | None \<Rightarrow> (case w_files w oldpath of
                   None \<Rightarrow> (Some (''rename '' @ oldpath @ '' '' @ newpath @
                                   '': no such file or directory''), w)
                 | Some content \<Rightarrow>
                     (None, w \<lparr> w_files := (w_files w)(oldpath := None, newpath \<mapsto> content) \<rparr>)))"

definition os_Remove :: "string \<Rightarrow> World \<Rightarrow> World" where
  "os_Remove name w = w \<lparr> w_files := (w_files w)(name := None) \<rparr>"

text \<open>\<^verbatim>\<open>filepath.Join\<close> and \<^verbatim>\<open>filepath.Dir\<close>, on cleaned paths.\<close>

definition filepath_Join :: "string \<Rightarrow> string \<Rightarrow> string" where
  "filepath_Join dir name = (if dir = [] then name else dir @ ''/'' @ name)"

definition filepath_Dir :: "string \<Rightarrow> string" where
  "filepath_Dir path =
     (let d = rev (dropWhile (\<lambda>c. c \<noteq> CHR ''/'') (rev path))
      in if d = [] then ''.'' else if d = ''/'' then d else butlast d)"

section \<open>Snippet manager (package docker, snippets)\<close>

record SnippetManager =
  sm_cacheDir :: string

record SnippetContent =
  sc_Content :: string
  sc_FilePath :: string
  sc_Hash :: string

definition NewSnippetManager :: "string \<Rightarrow> SnippetManager" where
  "NewSnippetManager cacheDir = \<lparr> sm_cacheDir = cacheDir \<rparr>"

definition validateFilePath :: "string \<Rightarrow> error option" where
  "validateFilePath filePath =
     (if Contains filePath ''..'' then Some (Err ''path traversal not allowed'')
      else if HasPrefix filePath ''/etc/'' \<or> HasPrefix filePath ''/var/''
      then Some (Err ''system directories not allowed'')
      else if HasSuffix filePath ''.conf'' then None
      else if HasSuffix filePath ''.txt'' then None
      else Some (Err ''only .conf and .txt files allowed''))"

definition hashPath :: "Runtime \<Rightarrow> string \<Rightarrow> string" where
  "hashPath rt path = take 12 (rt_sha256_hex rt path)"

definition hashContent :: "Runtime \<Rightarrow> string \<Rightarrow> string" where
  "hashContent rt content = take 12 (rt_sha256_hex rt content)"

definition loadFromCache :: "Runtime \<Rightarrow> string \<Rightarrow> World \<Rightarrow> error + SnippetContent" where
  "loadFromCache rt cacheFile w =
     (case w_files w cacheFile of
        None \<Rightarrow> Inl (Err ''cache file not found'')
      | Some _ \<Rightarrow>
          (case os_ReadFile rt cacheFile w of
             Inl e \<Rightarrow> Inl (Err e)
           | Inr content \<Rightarrow>
               Inr \<lparr> sc_Content = content, sc_FilePath = [], sc_Hash = hashContent rt content \<rparr>))"

definition saveToCache ::
  "Runtime \<Rightarrow> SnippetManager \<Rightarrow> string \<Rightarrow> SnippetContent \<Rightarrow> World \<Rightarrow> string option \<times> World" where
  "saveToCache rt sm cacheFile snippet w =
     (case rt_MkdirAll_error rt (sm_cacheDir sm) of
        Some e \<Rightarrow> (Some e, w)
      | None \<Rightarrow> os_WriteFile rt cacheFile (sc_Content snippet) w)"

text \<open>
  \<^verbatim>\<open>downloadViaExec\<close> reads the stream to its end and takes, of the pieces between
  NUL bytes, the first that is not blank and does not start with \<^verbatim>\<open>PaxHeaders\<close>.
\<close>

definition downloadViaExec :: "string + string \<Rightarrow> string + string" where
  "downloadViaExec reader =
     (case reader of
        Inl e \<Rightarrow> Inl e
      | Inr content \<Rightarrow>
          (if Contains content [CHR 0x00]
           then (case find (\<lambda>part. TrimSpace part \<noteq> [] \<and> \<not> HasPrefix part ''PaxHeaders'')
                        (Split content (CHR 0x00)) of
                   Some part \<Rightarrow> Inr (TrimSpace part)
                 | None \<Rightarrow> Inr (TrimSpace content))
           else Inr (TrimSpace content)))"

definition downloadFromContainer ::
  "Runtime \<Rightarrow> string \<Rightarrow> string \<Rightarrow> World \<Rightarrow> (error + string) \<times> World" where
  "downloadFromContainer rt containerID filePath w =
     (let w1 = w \<lparr> w_copy_calls := w_copy_calls w @ [(containerID, filePath)] \<rparr>
      in case rt_CopyFromContainer rt containerID filePath of
           Inl e \<Rightarrow> (Inl (Err (''failed to copy file from container: '' @ e)), w1)
         | Inr reader \<Rightarrow>
             (case downloadViaExec reader of
                Inl e \<Rightarrow> (Inl (Err (''failed to extract file from tar: '' @ e)), w1)
              | Inr content \<Rightarrow> (Inr content, w1)))"

text \<open>
  \<^verbatim>\<open>DownloadSnippet\<close> returns a snippet, no snippet (\<^verbatim>\<open>nil\<close>) or an error. The
  slice \<^verbatim>\<open>containerID[:12]\<close> panics on an identifier shorter than 12 bytes.
\<close>

definition DownloadSnippet ::
  "Runtime \<Rightarrow> SnippetManager \<Rightarrow> string \<Rightarrow> string \<Rightarrow> World
     \<Rightarrow> (error + SnippetContent option) \<times> World" where
  "DownloadSnippet rt sm containerID filePath w =
     (if filePath = [] then (Inr None, w)
      else case validateFilePath filePath of
        Some e \<Rightarrow> (Inl (wrap (''invalid file path '' @ filePath @ '': '') e), w)
      | None \<Rightarrow>
          (if length containerID < 12 then (Inl Panic, w)
           else
             (let cacheKey = take 12 containerID @ ''_'' @ hashPath rt filePath;
                  cacheFile = filepath_Join (sm_cacheDir sm) (cacheKey @ ''.conf'')
              in case loadFromCache rt cacheFile w of
                   Inr content \<Rightarrow> (Inr (Some content), w)
                 | Inl _ \<Rightarrow>
                     (case downloadFromContainer rt containerID filePath w of
                        (Inl e, w1) \<Rightarrow>
                          (Inl (wrap (''failed to download '' @ filePath @ '' from container '' @
                                      containerID @ '': '') e), w1)
                      | (Inr content, w1) \<Rightarrow>
                          (let snippet = \<lparr> sc_Content = content, sc_FilePath = filePath,
                                           sc_Hash = hashContent rt content \<rparr>
                           in case saveToCache rt sm cacheFile snippet w1 of
                                (Some e, w2) \<Rightarrow>
                                  (Inr (Some snippet),
                                   Printf (''Warning: failed to cache snippet '' @ cacheFile @ '': '' @
                                           e @ [CHR 0x0A]) w2)
                              | (None, w2) \<Rightarrow> (Inr (Some snippet), w2))))))"

text \<open>\<^verbatim>\<open>DownloadAllSnippets\<close> fills a map with the keys \<^verbatim>\<open>configuration\<close> and \<^verbatim>\<open>server\<close>.\<close>

definition DownloadAllSnippets ::
  "Runtime \<Rightarrow> SnippetManager \<Rightarrow> ContainerConfig \<Rightarrow> World
     \<Rightarrow> (error + (string \<times> SnippetContent) list) \<times> World" where
  "DownloadAllSnippets rt sm config w =
     (case (if cc_ConfigurationSnippet config \<noteq> []
            then (case DownloadSnippet rt sm (cc_ContainerID config) (cc_ConfigurationSnippet config) w of
                    (Inl e, w1) \<Rightarrow> (Inl (wrap ''failed to download configuration snippet: '' e), w1)
                  | (Inr None, w1) \<Rightarrow> (Inr [], w1)
                  | (Inr (Some snippet), w1) \<Rightarrow> (Inr [(''configuration'', snippet)], w1))
            else (Inr [], w))
      of (Inl e, w1) \<Rightarrow> (Inl e, w1)
       | (Inr snippets, w1) \<Rightarrow>
           (if cc_ServerSnippet config \<noteq> []
            then (case DownloadSnippet rt sm (cc_ContainerID config) (cc_ServerSnippet config) w1 of
                    (Inl e, w2) \<Rightarrow> (Inl (wrap ''failed to download server snippet: '' e), w2)
                  | (Inr None, w2) \<Rightarrow> (Inr snippets, w2)
                  | (Inr (Some snippet), w2) \<Rightarrow> (Inr (AList.update ''server'' snippet snippets), w2))
            else (Inr snippets, w1)))"

section \<open>FastCGI parameter manager (package docker, fastcgi)\<close>

record FastCGIParameterManager =
  fpm_cacheDir :: string
  fpm_snippetManager :: SnippetManager

definition NewFastCGIParameterManager :: "string \<Rightarrow> FastCGIParameterManager" where
  "NewFastCGIParameterManager cacheDir =
     \<lparr> fpm_cacheDir = cacheDir, fpm_snippetManager = NewSnippetManager cacheDir \<rparr>"

definition GetSupportedFileExtensions :: "string list" where
  "GetSupportedFileExtensions = [''.conf'', ''.txt'', ''.params'']"

text \<open>
  The quotes around a value are cut off by the slice \<^verbatim>\<open>value[1 : len(value)-1]\<close>, which
  panics on the one-byte value that is a single quote character.
\<close>

definition strip_quotes :: "string \<Rightarrow> string option" where
  "strip_quotes v =
     (if (HasPrefix v [CHR 0x22] \<and> HasSuffix v [CHR 0x22]) \<or>
         (HasPrefix v [CHR 0x27] \<and> HasSuffix v [CHR 0x27])
      then (if length v < 2 then None else Some (take (length v - 2) (drop 1 v)))
      else Some v)"

fun parse_lines :: "strmap \<Rightarrow> string list \<Rightarrow> error + strmap" where
  "parse_lines params [] = Inr params"
| "parse_lines params (text # rest) =
     (if length text \<ge> MaxScanTokenSize
      then Inl (Err ''error reading FastCGI params file: bufio.Scanner: token too long'')
      else
        (let line = TrimSpace (drop_cr text)
         in if line = [] \<or> HasPrefix line ''#'' then parse_lines params rest
            else if HasPrefix line ''fastcgi_param ''
            then (case Fields line of
                    _ # paramName # v # vs \<Rightarrow>
                      (case strip_quotes (TrimSuffix (Join (v # vs) '' '') '';'') of
                         None \<Rightarrow> Inl Panic
                       | Some paramValue \<Rightarrow>
                           parse_lines (AList.update paramName paramValue params) rest)
                  | _ \<Rightarrow> parse_lines params rest)
            else (case SplitN2 line (CHR ''='') of
                    [k, v] \<Rightarrow>
                      (case strip_quotes (TrimSpace v) of
                         None \<Rightarrow> Inl Panic
                       | Some val \<Rightarrow> parse_lines (AList.update (TrimSpace k) val params) rest)
                  | _ \<Rightarrow> parse_lines params rest)))"

definition parseFastCGIParamsFile :: "string \<Rightarrow> error + strmap" where
  "parseFastCGIParamsFile content = parse_lines [] (scan_lines content)"

definition loadParamsFromFile ::
  "Runtime \<Rightarrow> FastCGIParameterManager \<Rightarrow> string \<Rightarrow> string \<Rightarrow> World
     \<Rightarrow> (error + strmap) \<times> World" where
  "loadParamsFromFile rt fpm containerID filePath w =
     (case validateFilePath filePath of
        Some e \<Rightarrow> (Inl e, w)
      | None \<Rightarrow>
          (case DownloadSnippet rt (fpm_snippetManager fpm) containerID filePath w of
             (Inl e, w1) \<Rightarrow> (Inl e, w1)
           | (Inr None, w1) \<Rightarrow> (Inl Panic, w1)
           | (Inr (Some snippetContent), w1) \<Rightarrow>
               (parseFastCGIParamsFile (sc_Content snippetContent), w1)))"

definition default_php_params :: strmap where
  "default_php_params =
     [(''SCRIPT_FILENAME'', ''$document_root$fastcgi_script_name''),
      (''QUERY_STRING'', ''$query_string''),
      (''REQUEST_METHOD'', ''$request_method''),
      (''CONTENT_TYPE'', ''$content_type''),
      (''CONTENT_LENGTH'', ''$content_length''),
      (''SCRIPT_NAME'', ''$fastcgi_script_name''),
      (''REQUEST_URI'', ''$request_uri''),
      (''DOCUMENT_URI'', ''$document_uri''),
      (''DOCUMENT_ROOT'', ''$document_root''),
      (''SERVER_PROTOCOL'', ''$server_protocol''),
      (''REQUEST_SCHEME'', ''$scheme''),
      (''HTTPS'', ''$https if_not_empty''),
      (''GATEWAY_INTERFACE'', ''CGI/1.1''),
      (''SERVER_SOFTWARE'', ''nginx/$nginx_version''),
      (''REMOTE_ADDR'', ''$remote_addr''),
      (''REMOTE_PORT'', ''$remote_port''),
      (''SERVER_ADDR'', ''$server_addr''),
      (''SERVER_PORT'', ''$server_port''),
      (''SERVER_NAME'', ''$server_name''),
      (''REDIRECT_STATUS'', ''200'')]"

definition merge_params :: "strmap \<Rightarrow> strmap \<Rightarrow> strmap" where
  "merge_params params new = foldl (\<lambda>m (key, v). AList.update key v m) params new"

definition addDefaultPHPParams :: "strmap \<Rightarrow> strmap" where
  "addDefaultPHPParams params =
     foldl (\<lambda>m (key, v). case map_of m key of None \<Rightarrow> AList.update key v m | Some _ \<Rightarrow> m)
       params default_php_params"

definition LoadFastCGIParams ::
  "Runtime \<Rightarrow> FastCGIParameterManager \<Rightarrow> ContainerConfig \<Rightarrow> World
     \<Rightarrow> (error + strmap) \<times> World" where
  "LoadFastCGIParams rt fpm config w =
     (let params = merge_params [] (fc_Params (cc_FastCGI config))
      in if fc_ParamsFile (cc_FastCGI config) \<noteq> []
         then (case loadParamsFromFile rt fpm (cc_ContainerID config)
                      (fc_ParamsFile (cc_FastCGI config)) w of
                 (Inl e, w1) \<Rightarrow>
                   (Inl (wrap (''failed to load FastCGI params from file '' @
                               fc_ParamsFile (cc_FastCGI config) @ '': '') e), w1)
               | (Inr fileParams, w1) \<Rightarrow>
                   (Inr (addDefaultPHPParams (merge_params params fileParams)), w1))
         else (Inr (addDefaultPHPParams params), w))"

fun required_params :: "strmap \<Rightarrow> string list \<Rightarrow> error option" where
  "required_params params [] = None"
| "required_params params (param # rest) =
     (case map_of params param of
        None \<Rightarrow> Some (Err (''required FastCGI parameter '' @ param @ '' is missing''))
      | Some _ \<Rightarrow> required_params params rest)"

definition ValidateFastCGIParams :: "strmap \<Rightarrow> World \<Rightarrow> error option \<times> World" where
  "ValidateFastCGIParams params w =
     (case required_params params [''SCRIPT_FILENAME'', ''REQUEST_METHOD''] of
        Some e \<Rightarrow> (Some e, w)
      | None \<Rightarrow>
          (case map_of params ''SCRIPT_FILENAME'' of
             None \<Rightarrow> (None, w)
           | Some scriptFilename \<Rightarrow>
               (if Contains scriptFilename ''$fastcgi_script_name'' then (None, w)
                else if Contains scriptFilename ''$document_root'' then (None, w)
                else (None, Printf (''Warning: SCRIPT_FILENAME '' @ [CHR 0x27] @ scriptFilename @
                        [CHR 0x27] @ '' should typically contain $fastcgi_script_name or '' @
                        ''$document_root variables'' @ [CHR 0x0A]) w))))"

section \<open>Container listing (package docker, data)\<close>

record ContainerData =
  cd_Config :: ContainerConfig
  cd_IPAddress :: string
  cd_NetworkName :: string
  cd_Status :: string

definition hasNginxLabels :: "strmap \<Rightarrow> bool" where
  "hasNginxLabels labels = list_ex (\<lambda>(key, v). HasPrefix key LabelPrefix) labels"

text \<open>The networks of a container are listed in the order the Go map is iterated.\<close>

definition extractNetworkInfo :: "InspectResponse \<Rightarrow> string \<times> string" where
  "extractNetworkInfo containerJSON =
     (case find (\<lambda>(name, ip). name \<noteq> ''bridge'' \<and> ip \<noteq> []) (ir_Networks containerJSON) of
        Some (name, ip) \<Rightarrow> (ip, name)
      | None \<Rightarrow>
          (case map_of (ir_Networks containerJSON) ''bridge'' of
             Some ip \<Rightarrow>
               (if ip \<noteq> [] then (ip, ''bridge'')
                else if ir_IPAddress containerJSON \<noteq> []
                then (ir_IPAddress containerJSON, ''bridge'') else ([], []))
           | None \<Rightarrow>
               (if ir_IPAddress containerJSON \<noteq> []
                then (ir_IPAddress containerJSON, ''bridge'') else ([], []))))"

definition getContainerName :: "string list \<Rightarrow> string" where
  "getContainerName names =
     (case names of
        [] \<Rightarrow> []
      | name # _ \<Rightarrow> (if HasPrefix name ''/'' then drop 1 name else name))"

text \<open>
  The loop of \<^verbatim>\<open>ListContainers\<close>: a container that cannot be inspected, whose labels
  cannot be extracted or whose configuration is invalid is reported by a warning and
  left out; the loop goes on with the next container.
\<close>

fun list_loop ::
  "Runtime \<Rightarrow> ContainerSummary list \<Rightarrow> ContainerData list \<Rightarrow> World
     \<Rightarrow> (error + ContainerData list) \<times> World" where
  "list_loop rt [] containerData w = (Inr containerData, w)"
| "list_loop rt (container # rest) containerData w =
     (if hasNginxLabels (cs_Labels container) then
        (case rt_ContainerInspect rt (cs_ID container) of
           Inl e \<Rightarrow>
             list_loop rt rest containerData
               (Printf (''Warning: failed to inspect container '' @ cs_ID container @ '': '' @ e @
                        [CHR 0x0A]) w)
         | Inr containerJSON \<Rightarrow>
             (case ExtractConfig (cs_ID container) (getContainerName (cs_Names container))
                     (fst (extractNetworkInfo containerJSON)) (cs_Labels container) of
                Inl Panic \<Rightarrow> (Inl Panic, w)
              | Inl (Err e) \<Rightarrow>
                  list_loop rt rest containerData
                    (Printf (''Warning: failed to extract config for container '' @
                             cs_ID container @ '': '' @ e @ [CHR 0x0A]) w)
              | Inr config \<Rightarrow>
                  (if cc_Enabled config then
                     (case ValidateConfig config of
                        Some Panic \<Rightarrow> (Inl Panic, w)
                      | Some (Err e) \<Rightarrow>
                          list_loop rt rest containerData
                            (Printf (''Warning: invalid config for container '' @
                                     cs_ID container @ '': '' @ e @ [CHR 0x0A]) w)
                      | None \<Rightarrow>
                          list_loop rt rest
                            (containerData @
                             [\<lparr> cd_Config = config,
                                cd_IPAddress = fst (extractNetworkInfo containerJSON),
                                cd_NetworkName = snd (extractNetworkInfo containerJSON),
                                cd_Status = cs_Status container \<rparr>]) w)
                   else list_loop rt rest containerData w)))
      else list_loop rt rest containerData w)"

definition ListContainers :: "Runtime \<Rightarrow> World \<Rightarrow> (error + ContainerData list) \<times> World" where
  "ListContainers rt w =
     (case rt_ContainerList rt of
        Inl e \<Rightarrow> (Inl (Err (''failed to list containers: '' @ e)), w)
      | Inr containers \<Rightarrow> list_loop rt containers [] w)"

definition FilterEnabledContainers :: "ContainerData list \<Rightarrow> ContainerData list" where
  "FilterEnabledContainers containers = filter (\<lambda>c. cc_Enabled (cd_Config c)) containers"

text \<open>
  \<^verbatim>\<open>GroupContainersByHost\<close> builds a Go map from host to containers. The groups are
  listed by the first appearance of their host; Go iterates the map in an order of
  its own choice.
\<close>

definition GroupContainersByHost :: "ContainerData list \<Rightarrow> (string \<times> ContainerData list) list" where
  "GroupContainersByHost containers =
     foldl (\<lambda>hostGroups container.
              AList.update (cc_Host (cd_Config container))
                ((case map_of hostGroups (cc_Host (cd_Config container)) of
                    None \<Rightarrow> [] | Some cs \<Rightarrow> cs) @ [container])
                hostGroups)
       [] containers"

section \<open>Configuration generator (package docker, generator)\<close>

definition zero_SSLConfig :: SSLConfig where
  "zero_SSLConfig = \<lparr> ssl_Enabled = False, ssl_Certificate = [], ssl_PrivateKey = [],
     ssl_Protocols = [] \<rparr>"

definition zero_FastCGILocationConfig :: FastCGILocationConfig where
  "zero_FastCGILocationConfig = \<lparr> fl_Enabled = False, fl_Pass = [], fl_Index = [], fl_Params = [] \<rparr>"

text \<open>
  A failed snippet download is a warning, and the snippet is left empty. The first
  container of the host that names a server snippet decides the server's snippet.
\<close>

definition snippet_or_warning ::
  "Runtime \<Rightarrow> SnippetManager \<Rightarrow> ContainerData \<Rightarrow> string \<Rightarrow> World
     \<Rightarrow> (error + string) \<times> World" where
  "snippet_or_warning rt sm container key w =
     (case DownloadAllSnippets rt sm (cd_Config container) w of
        (Inl Panic, w1) \<Rightarrow> (Inl Panic, w1)
      | (Inl (Err e), w1) \<Rightarrow>
          (Inr [], Printf (''Warning: failed to download snippets for container '' @
                           cc_ContainerName (cd_Config container) @ '': '' @ e @ [CHR 0x0A]) w1)
      | (Inr snippets, w1) \<Rightarrow>
          (case map_of snippets key of
             None \<Rightarrow> (Inr [], w1)
           | Some snippet \<Rightarrow> (Inr (sc_Content snippet), w1)))"

definition server_snippet ::
  "Runtime \<Rightarrow> SnippetManager \<Rightarrow> ContainerData list \<Rightarrow> World \<Rightarrow> (error + string) \<times> World" where
  "server_snippet rt sm hostContainers w =
     (case find (\<lambda>c. cc_ServerSnippet (cd_Config c) \<noteq> []) hostContainers of
        None \<Rightarrow> (Inr [], w)
      | Some container \<Rightarrow> snippet_or_warning rt sm container ''server'' w)"

text \<open>
  The body of the loop over the containers of a host: the upstream and the location
  of one container. The slice \<^verbatim>\<open>ContainerID[:12]\<close> panics on a short identifier. An
  error of the FastCGI parameters is returned, which ends \<^verbatim>\<open>GenerateNginxConfig\<close>.
\<close>

definition container_blocks ::
  "Runtime \<Rightarrow> SnippetManager \<Rightarrow> FastCGIParameterManager \<Rightarrow> string \<Rightarrow> ContainerData \<Rightarrow> World
     \<Rightarrow> (error + UpstreamConfig \<times> LocationConfig) \<times> World" where
  "container_blocks rt sm fpm host container w =
     (let config = cd_Config container;
          upstreamName = ''backend_'' @ ReplaceAll host (CHR ''.'') ''_'' @ ''_'' @
                         cc_ContainerName config;
          address = cd_IPAddress container @ '':'' @ Itoa (cc_Port config);
          upstream = \<lparr> up_Name = upstreamName,
                       up_Method = lb_Method (cc_LoadBalancer config),
                       up_Servers = [\<lparr> us_Address = address, us_Weight = 1, us_Backup = False \<rparr>],
                       up_HealthCheck = hc_Enabled (cc_HealthCheck config),
                       up_HealthPath = hc_Path (cc_HealthCheck config) \<rparr>
      in case (if cc_ConfigurationSnippet config \<noteq> []
               then snippet_or_warning rt sm container ''configuration'' w
               else (Inr [], w))
         of (Inl e, w1) \<Rightarrow> (Inl e, w1)
          | (Inr configSnippetContent, w1) \<Rightarrow>
              (if length (cc_ContainerID config) < 12 then (Inl Panic, w1)
               else
                 (let location =
                        \<lparr> loc_Path = cc_Path config,
                          loc_Upstream = upstreamName,
                          loc_Priority = cc_Priority config,
                          loc_ProxyPass = ''http://'' @ upstreamName,
                          loc_Auth = auth_Enabled (mw_Auth (cc_Middleware config)),
                          loc_AuthType = auth_Type (mw_Auth (cc_Middleware config)),
                          loc_CORS = mw_CORS (cc_Middleware config),
                          loc_ProxyHeaders =
                            [(''X-Container-Name'', cc_ContainerName config),
                             (''X-Container-ID'', take 12 (cc_ContainerID config))],
                          loc_ConfigurationSnippet = configSnippetContent,
                          loc_FastCGI = zero_FastCGILocationConfig \<rparr>
                  in if fc_Enabled (cc_FastCGI config) then
                       (case LoadFastCGIParams rt fpm config w1 of
                          (Inl e, w2) \<Rightarrow>
                            (Inl (wrap (''failed to load FastCGI params for container '' @
                                        cc_ContainerName config @ '': '') e), w2)
                        | (Inr fastcgiParams, w2) \<Rightarrow>
                            (case ValidateFastCGIParams fastcgiParams w2 of
                               (Some e, w3) \<Rightarrow>
                                 (Inl (wrap (''invalid FastCGI params for container '' @
                                             cc_ContainerName config @ '': '') e), w3)
                             | (None, w3) \<Rightarrow>
                                 (Inr (upstream,
                                       location \<lparr> loc_FastCGI :=
                                                    \<lparr> fl_Enabled = True, fl_Pass = address,
                                                      fl_Index = fc_Index (cc_FastCGI config),
                                                      fl_Params = fastcgiParams \<rparr>,
                                                  loc_ProxyPass := [] \<rparr>), w3)))
                     else (Inr (upstream, location), w1))))"

fun containers_loop ::
  "Runtime \<Rightarrow> SnippetManager \<Rightarrow> FastCGIParameterManager \<Rightarrow> string \<Rightarrow> ContainerData list
     \<Rightarrow> UpstreamConfig list \<Rightarrow> LocationConfig list \<Rightarrow> World
     \<Rightarrow> (error + UpstreamConfig list \<times> LocationConfig list) \<times> World" where
  "containers_loop rt sm fpm host [] upstreams locations w = (Inr (upstreams, locations), w)"
| "containers_loop rt sm fpm host (container # rest) upstreams locations w =
     (case container_blocks rt sm fpm host container w of
        (Inl e, w1) \<Rightarrow> (Inl e, w1)
      | (Inr (upstream, location), w1) \<Rightarrow>
          containers_loop rt sm fpm host rest (upstreams @ [upstream]) (locations @ [location]) w1)"

text \<open>The body of the loop over the hosts: one server block.\<close>

definition host_blocks ::
  "Runtime \<Rightarrow> SnippetManager \<Rightarrow> FastCGIParameterManager \<Rightarrow> string \<Rightarrow> ContainerData list
     \<Rightarrow> NginxConfig \<Rightarrow> World \<Rightarrow> (error + NginxConfig) \<times> World" where
  "host_blocks rt sm fpm host hostContainers config w =
     (let needsSSL = list_ex (\<lambda>c. cc_TLS (cd_Config c)) hostContainers;
          listen = (if needsSSL then [''80'', ''443 ssl''] else [''80'']);
          ssl = (if needsSSL
                 then \<lparr> ssl_Enabled = True,
                        ssl_Certificate = ''/etc/nginx/ssl/default.crt'',
                        ssl_PrivateKey = ''/etc/nginx/ssl/default.key'',
                        ssl_Protocols = [''TLSv1.2'', ''TLSv1.3''] \<rparr>
                 else zero_SSLConfig)
      in case server_snippet rt sm hostContainers w of
           (Inl e, w1) \<Rightarrow> (Inl e, w1)
         | (Inr serverSnippetContent, w1) \<Rightarrow>
             (case containers_loop rt sm fpm host hostContainers (nc_Upstreams config) [] w1 of
                (Inl e, w2) \<Rightarrow> (Inl e, w2)
              | (Inr (upstreams, locations), w2) \<Rightarrow>
                  (Inr (config \<lparr> nc_Upstreams := upstreams,
                                  nc_Servers := nc_Servers config @
                                    [\<lparr> sv_ServerName = host, sv_Listen = listen, sv_SSL = ssl,
                                       sv_Locations = locations,
                                       sv_ServerSnippet = serverSnippetContent \<rparr>] \<rparr>), w2)))"

fun hosts_loop ::
  "Runtime \<Rightarrow> SnippetManager \<Rightarrow> FastCGIParameterManager \<Rightarrow> (string \<times> ContainerData list) list
     \<Rightarrow> NginxConfig \<Rightarrow> World \<Rightarrow> (error + NginxConfig) \<times> World" where
  "hosts_loop rt sm fpm [] config w = (Inr config, w)"
| "hosts_loop rt sm fpm ((host, hostContainers) # rest) config w =
     (case host_blocks rt sm fpm host hostContainers config w of
        (Inl e, w1) \<Rightarrow> (Inl e, w1)
      | (Inr config1, w1) \<Rightarrow> hosts_loop rt sm fpm rest config1 w1)"

text \<open>\<^verbatim>\<open>GenerateNginxConfig\<close>; \<^verbatim>\<open>now\<close> is the reading of the clock.\<close>

definition GenerateNginxConfig ::
  "Runtime \<Rightarrow> int \<Rightarrow> ContainerData list \<Rightarrow> SnippetManager \<Rightarrow> FastCGIParameterManager \<Rightarrow> World
     \<Rightarrow> (error + NginxConfig) \<times> World" where
  "GenerateNginxConfig rt now containers snippetManager fastcgiManager w =
     hosts_loop rt snippetManager fastcgiManager (GroupContainersByHost containers)
       \<lparr> nc_Upstreams = [], nc_Servers = [], nc_Generated = now \<rparr> w"

section \<open>Provider (package docker, provider)\<close>

record Provider =
  p_nginxConfigPath :: string
  p_templatePath :: string

text \<open>
  \<^verbatim>\<open>writeConfigFile\<close>: render, make the directory, write the temporary file, rename it
  over the configuration file. The temporary file is removed when the rename fails.
\<close>

definition writeConfigFile ::
  "Runtime \<Rightarrow> Provider \<Rightarrow> NginxConfig \<Rightarrow> World \<Rightarrow> error option \<times> World" where
  "writeConfigFile rt p config w =
     (case rt_RenderNginxConfig rt config (p_templatePath p) of
        Inl e \<Rightarrow> (Some (Err e), w)
      | Inr content \<Rightarrow>
          (case rt_MkdirAll_error rt (filepath_Dir (p_nginxConfigPath p)) of
             Some e \<Rightarrow> (Some (Err (''failed to create config directory: '' @ e)), w)
           | None \<Rightarrow>
               (let tempFile = p_nginxConfigPath p @ ''.tmp''
                in case os_WriteFile rt tempFile content w of
                     (Some e, w1) \<Rightarrow> (Some (Err (''failed to write temp config file: '' @ e)), w1)
                   | (None, w1) \<Rightarrow>
                       (case os_Rename rt tempFile (p_nginxConfigPath p) w1 of
                          (Some e, w2) \<Rightarrow>
                            (Some (Err (''failed to move config file: '' @ e)), os_Remove tempFile w2)
                        | (None, w2) \<Rightarrow> (None, w2)))))"

section \<open>Circuit breaker (package errors)\<close>

text \<open>
  Times and durations are nanosecond counts; \<^verbatim>\<open>time.Since\<close> is the difference of two
  clock readings, kept within the 64-bit range of a \<^verbatim>\<open>Duration\<close>. The zero
  \<^verbatim>\<open>time.Time\<close> is 0. The threshold and the failure counter are Go's \<^verbatim>\<open>int\<close>, of
  64 bits: \<^verbatim>\<open>failureCount++\<close> wraps around from the largest value to the smallest.
\<close>

datatype CircuitState = Closed | Open | HalfOpen

record CircuitBreaker =
  cb_failureThreshold :: int
  cb_timeout :: int
  cb_failureCount :: int
  cb_lastFailureTime :: int
  cb_state :: CircuitState

definition NewCircuitBreaker :: "int \<Rightarrow> int \<Rightarrow> CircuitBreaker" where
  "NewCircuitBreaker failureThreshold timeout =
     \<lparr> cb_failureThreshold = failureThreshold, cb_timeout = timeout, cb_failureCount = 0,
       cb_lastFailureTime = 0, cb_state = Closed \<rparr>"

definition int64_wrap :: "int \<Rightarrow> int" where
  "int64_wrap i = (i + 2 ^ 63) mod 2 ^ 64 - 2 ^ 63"

definition time_Since :: "int \<Rightarrow> int \<Rightarrow> int" where
  "time_Since now t = max (- (2 ^ 63)) (min (2 ^ 63 - 1) (now - t))"

text \<open>
  \<^verbatim>\<open>Execute\<close> reads the clock on entry (\<^verbatim>\<open>now\<close>) and again after a failed operation
  (\<^verbatim>\<open>later\<close>). The operation acts on a state of its own and returns an error or
  \<^verbatim>\<open>nil\<close>; a panic of the operation leaves \<^verbatim>\<open>Execute\<close> before the result is handled.
\<close>

definition Execute ::
  "CircuitBreaker \<Rightarrow> int \<Rightarrow> ('w \<Rightarrow> error option \<times> 'w) \<Rightarrow> int \<Rightarrow> 'w
     \<Rightarrow> error option \<times> CircuitBreaker \<times> 'w" where
  "Execute cb now operation later w =
     (let cb1 = (if cb_state cb = Open \<and> time_Since now (cb_lastFailureTime cb) > cb_timeout cb
                 then cb \<lparr> cb_state := HalfOpen, cb_failureCount := 0 \<rparr> else cb)
      in if cb_state cb1 = Open then (Some (Err ''circuit breaker is open''), cb1, w)
         else (case operation w of
                 (Some Panic, w1) \<Rightarrow> (Some Panic, cb1, w1)
               | (Some (Err e), w1) \<Rightarrow>
                   (let cb2 = cb1 \<lparr> cb_failureCount := int64_wrap (cb_failureCount cb1 + 1),
                                     cb_lastFailureTime := later \<rparr>
                    in (Some (Err e),
                        (if cb_failureCount cb2 \<ge> cb_failureThreshold cb2
                         then cb2 \<lparr> cb_state := Open \<rparr> else cb2),
                        w1))
               | (None, w1) \<Rightarrow>
                   (None,
                    (if cb_state cb1 = HalfOpen then cb1 \<lparr> cb_state := Closed \<rparr> else cb1)
                      \<lparr> cb_failureCount := 0 \<rparr>,
                    w1)))"

definition GetState :: "CircuitBreaker \<Rightarrow> CircuitState" where
  "GetState cb = cb_state cb"

definition Reset :: "CircuitBreaker \<Rightarrow> CircuitBreaker" where
  "Reset cb = cb \<lparr> cb_state := Closed, cb_failureCount := 0 \<rparr>"

text \<open>
  An operation that succeeds, and one that fails with a given error; both count their
  runs in a state that is a number. A run of calls of \<^verbatim>\<open>Execute\<close> whose operations all
  fail, each call with its two clock readings and its error.
\<close>

definition succeeding :: "nat \<Rightarrow> error option \<times> nat" where
  "succeeding runs = (None, Suc runs)"

definition failing :: "string \<Rightarrow> nat \<Rightarrow> error option \<times> nat" where
  "failing e runs = (Some (Err e), Suc runs)"

fun execute_failures ::
  "CircuitBreaker \<Rightarrow> (int \<times> string \<times> int) list \<Rightarrow> nat \<Rightarrow> CircuitBreaker \<times> nat" where
  "execute_failures cb [] runs = (cb, runs)"
| "execute_failures cb ((now, e, later) # rest) runs =
     (case Execute cb now (failing e) later runs of
        (r, cb1, runs1) \<Rightarrow> execute_failures cb1 rest runs1)"

section \<open>Concrete inputs\<close>

text \<open>
  A container runtime with two running containers: a web application named
  \<^verbatim>\<open>my-app\<close> and a PHP application whose FastCGI parameter file lies under \<^verbatim>\<open>/etc/\<close>.
  Writing the temporary configuration file runs out of disk space after five bytes.
\<close>

definition web_id :: string where
  "web_id = ''4f2a9c1d7e3b0a5566778899aabbccddeeff00112233445566778899aabbccdd''"

definition php_id :: string where
  "php_id = ''9b8e7d6c5f4a3b2c1d0e9f8a7b6c5d4e3f2a1b0c9d8e7f6a5b4c3d2e1f0a9b8c''"

definition example_web :: ContainerSummary where
  "example_web =
     \<lparr> cs_ID = web_id, cs_Names = [''/my-app''],
       cs_Labels = [(''nginx.ingress.enable'', ''true''), (''nginx.ingress.host'', ''app.local''),
                    (''nginx.ingress.port'', ''3000'')],
       cs_Status = ''Up 2 minutes'' \<rparr>"

definition example_php :: ContainerSummary where
  "example_php =
     \<lparr> cs_ID = php_id, cs_Names = [''/php''],
       cs_Labels = [(''nginx.ingress.enable'', ''true''), (''nginx.ingress.host'', ''php.local''),
                    (''nginx.ingress.port'', ''9000''),
                    (''nginx.ingress.backend-protocol'', ''FCGI''),
                    (''nginx.ingress.fastcgi-params-file'', ''/etc/nginx/fastcgi.conf'')],
       cs_Status = ''Up 2 minutes'' \<rparr>"

definition example_inspect :: "string \<Rightarrow> string + InspectResponse" where
  "example_inspect containerID =
     (if containerID = web_id
      then Inr \<lparr> ir_Networks = [(''bridge'', ''10.0.0.5'')], ir_IPAddress = ''10.0.0.5'' \<rparr>
      else if containerID = php_id
      then Inr \<lparr> ir_Networks = [(''bridge'', ''10.0.0.6'')], ir_IPAddress = ''10.0.0.6'' \<rparr>
      else Inl ''No such container'')"

definition example_copy :: "string \<Rightarrow> string \<Rightarrow> string + (string + string)" where
  "example_copy containerID filePath = Inl ''Could not find the file in container''"

definition example_sha256_hex :: "string \<Rightarrow> string" where
  "example_sha256_hex s = ''e3b0c44298fc1c149afbf4c8996fb92427ae41e4649b934ca495991b7852b855''"

definition example_no_error :: "string \<Rightarrow> string option" where
  "example_no_error path = None"

definition example_write :: "string \<Rightarrow> string \<Rightarrow> write_outcome" where
  "example_write name data =
     (if name = ''/etc/nginx/conf.d/docker-ingress.conf.tmp''
      then WriteFailed 5 ''no space left on device'' else Written)"

definition example_rename :: "string \<Rightarrow> string \<Rightarrow> string option" where
  "example_rename oldpath newpath = None"

definition example_render :: "NginxConfig \<Rightarrow> string \<Rightarrow> string + string" where
  "example_render config templatePath = Inr ''# generated by local-nginx-ingress''"

definition example_runtime :: Runtime where
  "example_runtime =
     \<lparr> rt_ContainerList = Inr [example_web, example_php],
       rt_ContainerInspect = example_inspect,
       rt_CopyFromContainer = example_copy,
       rt_sha256_hex = example_sha256_hex,
       rt_ReadFile_error = example_no_error,
       rt_MkdirAll_error = example_no_error,
       rt_WriteFile_outcome = example_write,
       rt_Rename_error = example_rename,
       rt_RenderNginxConfig = example_render \<rparr>"

definition example_files :: "string \<Rightarrow> string option" where
  "example_files path = None"

definition example_world :: World where
  "example_world = \<lparr> w_files = example_files, w_copy_calls = [], w_stdout = [] \<rparr>"

definition example_cacheDir :: string where
  "example_cacheDir = ''/tmp/nginx-ingress-snippets''"

definition example_provider :: Provider where
  "example_provider =
     \<lparr> p_nginxConfigPath = ''/etc/nginx/conf.d/docker-ingress.conf'',
       p_templatePath = ''templates/nginx.conf.tmpl'' \<rparr>"

text \<open>The two containers as \<^verbatim>\<open>ListContainers\<close> hands them on.\<close>

definition web_config :: ContainerConfig where
  "web_config =
     (initial_ContainerConfig web_id ''my-app'' ''10.0.0.5'')
       \<lparr> cc_Enabled := True, cc_Host := ''app.local'', cc_Port := 3000,
         cc_LoadBalancer := \<lparr> lb_Method = ''round_robin'' \<rparr>,
         cc_HealthCheck := \<lparr> hc_Enabled = False, hc_Path = ''/health'' \<rparr> \<rparr>"

definition php_config :: ContainerConfig where
  "php_config =
     (initial_ContainerConfig php_id ''php'' ''10.0.0.6'')
       \<lparr> cc_Enabled := True, cc_Host := ''php.local'', cc_Port := 9000,
         cc_LoadBalancer := \<lparr> lb_Method = ''round_robin'' \<rparr>,
         cc_HealthCheck := \<lparr> hc_Enabled = False, hc_Path = ''/health'' \<rparr>,
         cc_FastCGI := \<lparr> fc_Enabled = True, fc_BackendProtocol = ''FCGI'', fc_Index = [],
                          fc_Params = [], fc_ParamsFile = ''/etc/nginx/fastcgi.conf'' \<rparr> \<rparr>"

definition web_data :: ContainerData where
  "web_data = \<lparr> cd_Config = web_config, cd_IPAddress = ''10.0.0.5'',
                 cd_NetworkName = ''bridge'', cd_Status = ''Up 2 minutes'' \<rparr>"

definition php_data :: ContainerData where
  "php_data = \<lparr> cd_Config = php_config, cd_IPAddress = ''10.0.0.6'',
                 cd_NetworkName = ''bridge'', cd_Status = ''Up 2 minutes'' \<rparr>"

text \<open>Labels that ask for FastCGI in lower case, and labels with a host of 254 bytes.\<close>

definition fcgi_lower_labels :: strmap where
  "fcgi_lower_labels =
     [(''nginx.ingress.enable'', ''true''), (''nginx.ingress.host'', ''php.local''),
      (''nginx.ingress.port'', ''9000''), (''nginx.ingress.backend-protocol'', ''fcgi'')]"

definition long_host :: string where
  "long_host = replicate 254 (CHR ''a'')"

definition long_host_labels :: strmap where
  "long_host_labels =
     [(''nginx.ingress.enable'', ''true''), (''nginx.ingress.host'', long_host)]"

text \<open>
  A breaker with the defaults of \<^verbatim>\<open>NewErrorHandler\<close> (three failures, thirty seconds),
  as three failures at the seconds 1, 2 and 3 leave it, and as it is while the call
  after the timeout runs.
\<close>

definition second :: int where
  "second = 1000000000"

definition example_breaker :: CircuitBreaker where
  "example_breaker = NewCircuitBreaker 3 (30 * second)"

definition three_failures :: "(int \<times> string \<times> int) list" where
  "three_failures =
     [(0, ''connection refused'', 1 * second), (1 * second, ''connection refused'', 2 * second),
      (2 * second, ''connection refused'', 3 * second)]"

definition open_breaker :: CircuitBreaker where
  "open_breaker =
     \<lparr> cb_failureThreshold = 3, cb_timeout = 30 * second, cb_failureCount = 3,
       cb_lastFailureTime = 3 * second, cb_state = Open \<rparr>"

definition half_open_breaker :: CircuitBreaker where
  "half_open_breaker =
     \<lparr> cb_failureThreshold = 3, cb_timeout = 30 * second, cb_failureCount = 0,
       cb_lastFailureTime = 3 * second, cb_state = HalfOpen \<rparr>"

section \<open>Properties\<close>

subsection \<open>Health surface\<close>

text \<open>
  Claim C10. With no component registered, \<^verbatim>\<open>GetOverallHealth\<close> is \<^verbatim>\<open>Healthy\<close>, and
  \<^verbatim>\<open>GET /health\<close> is answered with status 200 and the body \<^verbatim>\<open>{"status":"healthy"}\<close>,
  no probe having run.
\<close>

theorem health_no_components:
  \<open>hm_components NewHealthMonitor = [] \<and>
   GetOverallHealth NewHealthMonitor = Healthy \<and>
   healthHandler NewHealthMonitor = (200, ''{"status":"healthy"}'')\<close>
  by (simp add: NewHealthMonitor_def GetOverallHealth_def healthHandler_def)

subsection \<open>Location order\<close>










subsection \<open>Evaluation on concrete inputs\<close>

lemmas string_defs =
  HasPrefix_def HasSuffix_def ReplaceAll_def Trim_def is_space_def TrimSpace_def TrimSuffix_def
  is_lower_def is_upper_def to_upper_byte_def to_lower_byte_def ToUpper_def ToLower_def
  SplitN2_def Fields_def is_digit_def digits_value_def Atoi_def digit_char_def nat_digits.simps
  Itoa_def drop_cr_def scan_lines_def suffix_def

lemmas label_defs =
  LabelPrefix_def LabelEnable_def LabelHost_def LabelPort_def LabelPath_def LabelProtocol_def
  LabelTLS_def LabelCertName_def LabelPriority_def LabelRule_def LabelMethod_def
  LabelHealthCheck_def LabelHealthCheckPath_def LabelAuth_def LabelCORS_def
  LabelConfigurationSnippet_def LabelServerSnippet_def LabelBackendProtocol_def
  LabelFastCGIIndex_def LabelFastCGIParams_def LabelFastCGIParamsFile_def
  DefaultProtocol_def DefaultPath_def DefaultPriority_def

lemmas extract_defs =
  zero_CORSConfig_def zero_AuthConfig_def zero_FastCGIConfig_def label_or_empty_def
  parseBool_def extractLoadBalancerConfig_def extractHealthCheckConfig_def
  extractMiddlewareConfig_def parseFastCGIParams_def extractFastCGIConfig_def
  initial_ContainerConfig_def extract_rest_def ExtractConfig_def

lemmas generator_defs =
  GenerateNginxConfig_def GroupContainersByHost_def host_blocks_def server_snippet_def
  container_blocks_def snippet_or_warning_def zero_SSLConfig_def zero_FastCGILocationConfig_def
  LoadFastCGIParams_def loadParamsFromFile_def validateFilePath_def merge_params_def wrap_def
  NewSnippetManager_def NewFastCGIParameterManager_def

lemmas example_defs =
  web_id_def php_id_def example_web_def example_php_def example_inspect_def example_copy_def
  example_sha256_hex_def example_no_error_def example_write_def example_rename_def
  example_render_def example_runtime_def example_files_def example_world_def
  example_cacheDir_def example_provider_def web_config_def php_config_def web_data_def
  php_data_def

lemma ExtractConfig_example_web:
  "ExtractConfig web_id ''my-app'' ''10.0.0.5'' (cs_Labels example_web) = Inr web_config"
  by (simp add: example_defs extract_defs label_defs string_defs Let_def)

lemma ExtractConfig_example_php:
  "ExtractConfig php_id ''php'' ''10.0.0.6'' (cs_Labels example_php) = Inr php_config"
  by (simp add: example_defs extract_defs label_defs string_defs Let_def)

lemma ValidateConfig_web_config: "ValidateConfig web_config = None"
  by (simp add: ValidateConfig_def web_config_def extract_defs label_defs string_defs)

lemma ValidateConfig_php_config: "ValidateConfig php_config = None"
  by (simp add: ValidateConfig_def php_config_def extract_defs label_defs string_defs)

lemma ListContainers_example:
  "ListContainers example_runtime example_world = (Inr [web_data, php_data], example_world)"
proof -
  have inspect_web: "rt_ContainerInspect example_runtime web_id =
      Inr \<lparr> ir_Networks = [(''bridge'', ''10.0.0.5'')], ir_IPAddress = ''10.0.0.5'' \<rparr>"
    by (simp add: example_runtime_def example_inspect_def)
  have inspect_php: "rt_ContainerInspect example_runtime php_id =
      Inr \<lparr> ir_Networks = [(''bridge'', ''10.0.0.6'')], ir_IPAddress = ''10.0.0.6'' \<rparr>"
    by (simp add: example_runtime_def example_inspect_def web_id_def php_id_def)
  have labelled: "hasNginxLabels (cs_Labels example_web)" "hasNginxLabels (cs_Labels example_php)"
    by (simp_all add: hasNginxLabels_def example_web_def example_php_def LabelPrefix_def
        HasPrefix_def)
  have fields: "cs_ID example_web = web_id" "cs_ID example_php = php_id"
     "getContainerName (cs_Names example_web) = ''my-app''"
     "getContainerName (cs_Names example_php) = ''php''"
     "cs_Status example_web = ''Up 2 minutes''" "cs_Status example_php = ''Up 2 minutes''"
    by (simp_all add: example_web_def example_php_def getContainerName_def HasPrefix_def)
  have enabled: "cc_Enabled web_config" "cc_Enabled php_config"
    by (simp_all add: web_config_def php_config_def)
  have listing: "rt_ContainerList example_runtime = Inr [example_web, example_php]"
    by (simp add: example_runtime_def)
  show ?thesis
    by (simp add: ListContainers_def listing labelled inspect_web inspect_php fields
        extractNetworkInfo_def ExtractConfig_example_web ExtractConfig_example_php enabled
        ValidateConfig_web_config ValidateConfig_php_config web_data_def php_data_def)
qed

subsection \<open>Snippet loader\<close>

text \<open>What the gate lets pass.\<close>

lemma validateFilePath_accepts_iff:
  "validateFilePath filePath = None \<longleftrightarrow>
   \<not> Contains filePath ''..'' \<and> \<not> HasPrefix filePath ''/etc/'' \<and> \<not> HasPrefix filePath ''/var/'' \<and>
   (HasSuffix filePath ''.conf'' \<or> HasSuffix filePath ''.txt'')"
  by (simp add: validateFilePath_def)

lemma validateFilePath_rejects:
  assumes "Contains filePath ''..'' \<or> HasPrefix filePath ''/etc/'' \<or> HasPrefix filePath ''/var/'' \<or>
           \<not> list_ex (HasSuffix filePath) GetSupportedFileExtensions"
  shows "\<exists>e. validateFilePath filePath = Some (Err e)"
  using assms by (auto simp: validateFilePath_def GetSupportedFileExtensions_def)

text \<open>
  Claim C1, as the code has it. For every path that contains \<^verbatim>\<open>..\<close>, or begins with
  \<^verbatim>\<open>/etc/\<close> or \<^verbatim>\<open>/var/\<close>, or ends in none of the supported suffixes:
  \<^verbatim>\<open>DownloadSnippet\<close> returns an error when the path is not empty, and no snippet and
  no error when it is empty; \<^verbatim>\<open>loadParamsFromFile\<close> returns an error; neither changes
  the world, so that no \<^verbatim>\<open>CopyFromContainer\<close> call is issued.
\<close>

theorem snippet_path_gate:
  assumes "Contains filePath ''..'' \<or> HasPrefix filePath ''/etc/'' \<or> HasPrefix filePath ''/var/'' \<or>
           \<not> list_ex (HasSuffix filePath) GetSupportedFileExtensions"
  shows "(if filePath = []
          then fst (DownloadSnippet rt sm containerID filePath w) = Inr None
          else (\<exists>e. fst (DownloadSnippet rt sm containerID filePath w) = Inl (Err e))) \<and>
         snd (DownloadSnippet rt sm containerID filePath w) = w \<and>
         w_copy_calls (snd (DownloadSnippet rt sm containerID filePath w)) = w_copy_calls w \<and>
         (\<exists>e. fst (loadParamsFromFile rt fpm containerID filePath w) = Inl (Err e)) \<and>
         snd (loadParamsFromFile rt fpm containerID filePath w) = w \<and>
         w_copy_calls (snd (loadParamsFromFile rt fpm containerID filePath w)) = w_copy_calls w"
proof -
  from validateFilePath_rejects [OF assms]
  obtain e where e: "validateFilePath filePath = Some (Err e)" by blast
  show ?thesis
    by (simp add: DownloadSnippet_def loadParamsFromFile_def e wrap_def)
qed

theorem snippet_path_gate_witness:
  "HasPrefix ''/etc/passwd'' ''/etc/'' \<and>
   (\<exists>e. fst (DownloadSnippet example_runtime (NewSnippetManager example_cacheDir) web_id
             ''/etc/passwd'' example_world) = Inl (Err e)) \<and>
   snd (DownloadSnippet example_runtime (NewSnippetManager example_cacheDir) web_id
          ''/etc/passwd'' example_world) = example_world \<and>
   (\<exists>e. fst (loadParamsFromFile example_runtime (NewFastCGIParameterManager example_cacheDir)
             web_id ''/etc/passwd'' example_world) = Inl (Err e)) \<and>
   snd (loadParamsFromFile example_runtime (NewFastCGIParameterManager example_cacheDir)
          web_id ''/etc/passwd'' example_world) = example_world"
proof -
  have unsafe: "Contains ''/etc/passwd'' ''..'' \<or> HasPrefix ''/etc/passwd'' ''/etc/'' \<or>
      HasPrefix ''/etc/passwd'' ''/var/'' \<or>
      \<not> list_ex (HasSuffix ''/etc/passwd'') GetSupportedFileExtensions"
    by (simp add: HasPrefix_def)
  show ?thesis
    using snippet_path_gate [OF unsafe, of example_runtime "NewSnippetManager example_cacheDir"
        web_id example_world "NewFastCGIParameterManager example_cacheDir"]
    by (simp add: HasPrefix_def)
qed

text \<open>
  The claim as stated fails at the empty path: it ends in none of the supported
  suffixes, and \<^verbatim>\<open>DownloadSnippet\<close> returns no error for it.
\<close>

theorem snippet_path_gate_counterexample:
  "\<not> list_ex (HasSuffix []) GetSupportedFileExtensions \<and>
   fst (DownloadSnippet example_runtime (NewSnippetManager example_cacheDir) web_id []
          example_world) = Inr None"
  by (simp add: DownloadSnippet_def GetSupportedFileExtensions_def HasSuffix_def)

text \<open>
  Claim C7 fails on the code. \<^verbatim>\<open>GetSupportedFileExtensions\<close> lists \<^verbatim>\<open>.params\<close>, yet
  \<^verbatim>\<open>validateFilePath\<close> rejects every path that ends in \<^verbatim>\<open>.params\<close>, and with it
  \<^verbatim>\<open>loadParamsFromFile\<close> does, as for \<^verbatim>\<open>/app/config/fastcgi.params\<close>.
\<close>

theorem params_suffix_rejected:
  "''.params'' \<in> set GetSupportedFileExtensions \<and>
   (\<exists>e. validateFilePath (stem @ ''.params'') = Some (Err e)) \<and>
   validateFilePath ''/app/config/fastcgi.params'' = Some (Err ''only .conf and .txt files allowed'') \<and>
   loadParamsFromFile example_runtime (NewFastCGIParameterManager example_cacheDir) php_id
     ''/app/config/fastcgi.params'' example_world
     = (Inl (Err ''only .conf and .txt files allowed''), example_world)"
proof -
  have no_conf: "\<not> HasSuffix (stem @ ''.params'') ''.conf''"
    by (simp add: HasSuffix_def suffix_to_prefix)
  have no_txt: "\<not> HasSuffix (stem @ ''.params'') ''.txt''"
    by (simp add: HasSuffix_def suffix_to_prefix)
  have general: "\<exists>e. validateFilePath (stem @ ''.params'') = Some (Err e)"
    by (simp add: validateFilePath_def no_conf no_txt)
  have concrete: "validateFilePath ''/app/config/fastcgi.params'' =
      Some (Err ''only .conf and .txt files allowed'')"
    by (simp add: validateFilePath_def string_defs)
  show ?thesis
    by (simp add: general concrete loadParamsFromFile_def GetSupportedFileExtensions_def)
qed

subsection \<open>Label model\<close>

text \<open>
  Claim C4 fails on the code. With the backend protocol written \<^verbatim>\<open>fcgi\<close>,
  \<^verbatim>\<open>ExtractConfig\<close> enables FastCGI and keeps the label as it is written, and
  \<^verbatim>\<open>ValidateConfig\<close> then rejects the configuration, because it compares the label
  with \<^verbatim>\<open>FCGI\<close> byte by byte.
\<close>

theorem fcgi_lower_case_rejected:
  "parseBool ''true'' \<and> ToUpper ''fcgi'' = ''FCGI'' \<and>
   (case ExtractConfig php_id ''php'' ''10.0.0.6'' fcgi_lower_labels of
      Inl e \<Rightarrow> False
    | Inr config \<Rightarrow>
        cc_Enabled config \<and> cc_Host config = ''php.local'' \<and>
        fc_Enabled (cc_FastCGI config) \<and> fc_BackendProtocol (cc_FastCGI config) = ''fcgi'' \<and>
        ValidateConfig config =
          Some (Err (''backend-protocol must be '' @ [CHR 0x27] @ ''FCGI'' @ [CHR 0x27] @
                     '' when FastCGI is enabled'')))"
  by (simp add: fcgi_lower_labels_def php_id_def extract_defs label_defs string_defs
      ValidateConfig_def Let_def)

text \<open>In general: FastCGI is enabled in any case of the letters, and valid in one.\<close>

lemma extractFastCGIConfig_protocol:
  assumes "map_of labels LabelBackendProtocol = Some v"
  shows "fc_Enabled (extractFastCGIConfig labels) = (ToUpper v = ''FCGI'') \<and>
         fc_BackendProtocol (extractFastCGIConfig labels) = v"
  using assms
  by (simp add: extractFastCGIConfig_def zero_FastCGIConfig_def Let_def split: option.splits)

lemma ValidateConfig_needs_exact_FCGI:
  assumes "cc_Enabled config" and "fc_Enabled (cc_FastCGI config)"
    and "fc_BackendProtocol (cc_FastCGI config) \<noteq> ''FCGI''"
  shows "ValidateConfig config \<noteq> None"
  using assms by (simp add: ValidateConfig_def)

text \<open>
  Claim C8 fails on the code. \<^verbatim>\<open>ValidateConfig\<close> rejects the empty host of an enabled
  configuration, and checks nothing else of the host: a host of 254 bytes is extracted
  and passes, while \<^verbatim>\<open>ValidateHostname\<close>, which no function calls, rejects it.
\<close>

theorem long_host_accepted:
  "length long_host = 254 \<and>
   (case ExtractConfig web_id ''my-app'' ''10.0.0.5'' long_host_labels of
      Inl e \<Rightarrow> False
    | Inr config \<Rightarrow>
        cc_Enabled config \<and> cc_Host config = long_host \<and> ValidateConfig config = None) \<and>
   ValidateHostname long_host = Some (Err ''hostname too long (max 253 characters)'')"
proof -
  have nonempty: "long_host \<noteq> []"
    by (simp add: long_host_def)
  have extracted: "ExtractConfig web_id ''my-app'' ''10.0.0.5'' long_host_labels =
      Inr ((initial_ContainerConfig web_id ''my-app'' ''10.0.0.5'')
             \<lparr> cc_Enabled := True, cc_Host := long_host,
               cc_LoadBalancer := \<lparr> lb_Method = ''round_robin'' \<rparr>,
               cc_HealthCheck := \<lparr> hc_Enabled = False, hc_Path = ''/health'' \<rparr> \<rparr>)"
    by (simp add: long_host_labels_def extract_defs label_defs string_defs Let_def)
  show ?thesis
    by (simp add: extracted nonempty ValidateConfig_def ValidateHostname_def
        initial_ContainerConfig_def label_defs HasPrefix_def zero_FastCGIConfig_def)
      (simp add: long_host_def)
qed

lemma ValidateConfig_empty_host:
  "cc_Enabled config \<Longrightarrow> cc_Host config = [] \<Longrightarrow>
   ValidateConfig config = Some (Err ''host is required when nginx ingress is enabled'')"
  by (simp add: ValidateConfig_def)

lemma ValidateConfig_ignores_host:
  "h \<noteq> [] \<Longrightarrow> h' \<noteq> [] \<Longrightarrow>
   ValidateConfig (config \<lparr> cc_Host := h \<rparr>) = ValidateConfig (config \<lparr> cc_Host := h' \<rparr>)"
  by (simp add: ValidateConfig_def)

subsection \<open>Configuration generator\<close>

text \<open>
  Claim C3 fails on the code. \<^verbatim>\<open>GenerateNginxConfig\<close> puts the container name into
  the upstream name as it is: the container \<^verbatim>\<open>my-app\<close> on the host \<^verbatim>\<open>app.local\<close>
  gets the upstream \<^verbatim>\<open>backend_app_local_my-app\<close>, where the sanitized name would give
  \<^verbatim>\<open>backend_app_local_my_app\<close>. \<^verbatim>\<open>SanitizeContainerName\<close> is called by no function.
\<close>

theorem upstream_name_not_sanitized:
  "(case fst (GenerateNginxConfig example_runtime 0 [web_data]
              (NewSnippetManager example_cacheDir) (NewFastCGIParameterManager example_cacheDir)
              example_world) of
      Inl e \<Rightarrow> False
    | Inr config \<Rightarrow> map up_Name (nc_Upstreams config) = [''backend_app_local_my-app'']) \<and>
   ''backend_'' @ ReplaceAll ''app.local'' (CHR ''.'') ''_'' @ ''_'' @ SanitizeContainerName ''my-app''
     = ''backend_app_local_my_app''"
  by (simp add: generator_defs web_data_def web_config_def web_id_def extract_defs label_defs
      SanitizeContainerName_def ReplaceAll_def Trim_def Let_def)

text \<open>In general: every upstream is named by the container name as it is.\<close>

lemma container_blocks_upstream_name:
  assumes "container_blocks rt sm fpm host container w = (Inr (upstream, location), w1)"
  shows "up_Name upstream =
         ''backend_'' @ ReplaceAll host (CHR ''.'') ''_'' @ ''_'' @
         cc_ContainerName (cd_Config container)"
  using assms
  by (auto simp: container_blocks_def Let_def split: prod.splits sum.splits if_splits option.splits)

lemma containers_loop_upstream_names:
  assumes "containers_loop rt sm fpm host containers upstreams locations w =
             (Inr (upstreams1, locations1), w1)"
  shows "map up_Name upstreams1 =
         map up_Name upstreams @
         map (\<lambda>c. ''backend_'' @ ReplaceAll host (CHR ''.'') ''_'' @ ''_'' @
                   cc_ContainerName (cd_Config c)) containers"
  using assms
proof (induction containers arbitrary: upstreams locations w)
  case Nil
  then show ?case by simp
next
  case (Cons container rest)
  from Cons.prems obtain upstream location w2
    where blocks: "container_blocks rt sm fpm host container w = (Inr (upstream, location), w2)"
      and loop: "containers_loop rt sm fpm host rest (upstreams @ [upstream])
                   (locations @ [location]) w2 = (Inr (upstreams1, locations1), w1)"
    by (auto split: prod.splits sum.splits)
  show ?case
    using Cons.IH [OF loop] container_blocks_upstream_name [OF blocks] by simp
qed

text \<open>
  Claim C2 fails on the code. Both containers of the example pass \<^verbatim>\<open>ListContainers\<close>.
  The FastCGI parameter file of the second cannot be loaded, and
  \<^verbatim>\<open>GenerateNginxConfig\<close> returns that error for the whole pass, printing no warning;
  the first container alone is rendered.
\<close>

theorem fastcgi_failure_fails_the_pass:
  "ListContainers example_runtime example_world = (Inr [web_data, php_data], example_world) \<and>
   GenerateNginxConfig example_runtime 0 [web_data, php_data]
     (NewSnippetManager example_cacheDir) (NewFastCGIParameterManager example_cacheDir)
     example_world
   = (Inl (Err (''failed to load FastCGI params for container php: '' @
                ''failed to load FastCGI params from file /etc/nginx/fastcgi.conf: '' @
                ''system directories not allowed'')), example_world) \<and>
   (case fst (GenerateNginxConfig example_runtime 0 [web_data]
              (NewSnippetManager example_cacheDir) (NewFastCGIParameterManager example_cacheDir)
              example_world) of
      Inl e \<Rightarrow> False
    | Inr config \<Rightarrow> map sv_ServerName (nc_Servers config) = [''app.local''])"
proof -
  have both: "GenerateNginxConfig example_runtime 0 [web_data, php_data]
     (NewSnippetManager example_cacheDir) (NewFastCGIParameterManager example_cacheDir)
     example_world
   = (Inl (Err (''failed to load FastCGI params for container php: '' @
                ''failed to load FastCGI params from file /etc/nginx/fastcgi.conf: '' @
                ''system directories not allowed'')), example_world)"
    by (simp add: generator_defs web_data_def web_config_def php_data_def php_config_def
        web_id_def php_id_def extract_defs label_defs string_defs Let_def)
  have one: "(case fst (GenerateNginxConfig example_runtime 0 [web_data]
              (NewSnippetManager example_cacheDir) (NewFastCGIParameterManager example_cacheDir)
              example_world) of
      Inl e \<Rightarrow> False
    | Inr config \<Rightarrow> map sv_ServerName (nc_Servers config) = [''app.local''])"
    by (simp add: generator_defs web_data_def web_config_def web_id_def extract_defs
        label_defs ReplaceAll_def Let_def)
  show ?thesis
    using both one by (simp add: ListContainers_example)
qed

text \<open>The sibling paths: an invalid container and a failed snippet are warnings.\<close>

lemma list_loop_skips_invalid:
  assumes "hasNginxLabels (cs_Labels container)"
    and "rt_ContainerInspect rt (cs_ID container) = Inr containerJSON"
    and "ExtractConfig (cs_ID container) (getContainerName (cs_Names container))
           (fst (extractNetworkInfo containerJSON)) (cs_Labels container) = Inr config"
    and "cc_Enabled config" and "ValidateConfig config = Some (Err e)"
  shows "list_loop rt (container # rest) containerData w =
         list_loop rt rest containerData
           (Printf (''Warning: invalid config for container '' @ cs_ID container @ '': '' @ e @
                    [CHR 0x0A]) w)"
  using assms by simp

lemma snippet_failure_is_warning:
  assumes "DownloadAllSnippets rt sm (cd_Config container) w = (Inl (Err e), w1)"
  shows "snippet_or_warning rt sm container key w =
         (Inr [], Printf (''Warning: failed to download snippets for container '' @
                          cc_ContainerName (cd_Config container) @ '': '' @ e @ [CHR 0x0A]) w1)"
  using assms by (simp add: snippet_or_warning_def)

text \<open>An error of one container ends the loop over the containers.\<close>

lemma containers_loop_error:
  assumes "container_blocks rt sm fpm host container w = (Inl e, w1)"
  shows "containers_loop rt sm fpm host (container # rest) upstreams locations w = (Inl e, w1)"
  using assms by simp


subsection \<open>Commit of the configuration file\<close>

text \<open>
  Claim C6 fails on the code. When the write of the temporary file fails after the
  file was opened, \<^verbatim>\<open>writeConfigFile\<close> returns the error and leaves the file: in the
  example the temporary file holds the five bytes written before the disk was full.
\<close>

theorem temp_file_left_after_failed_write:
  "fst (writeConfigFile example_runtime example_provider config example_world)
     = Some (Err ''failed to write temp config file: no space left on device'') \<and>
   w_files (snd (writeConfigFile example_runtime example_provider config example_world))
     ''/etc/nginx/conf.d/docker-ingress.conf.tmp'' = Some ''# gen'' \<and>
   w_files example_world ''/etc/nginx/conf.d/docker-ingress.conf.tmp'' = None"
  by (simp add: writeConfigFile_def os_WriteFile_def example_defs)

lemma writeConfigFile_success:
  assumes "rt_RenderNginxConfig rt config (p_templatePath p) = Inr content"
    and "rt_MkdirAll_error rt (filepath_Dir (p_nginxConfigPath p)) = None"
    and "rt_WriteFile_outcome rt (p_nginxConfigPath p @ ''.tmp'') content = Written"
    and "rt_Rename_error rt (p_nginxConfigPath p @ ''.tmp'') (p_nginxConfigPath p) = None"
  shows "fst (writeConfigFile rt p config w) = None \<and>
         w_files (snd (writeConfigFile rt p config w)) (p_nginxConfigPath p) = Some content \<and>
         w_files (snd (writeConfigFile rt p config w)) (p_nginxConfigPath p @ ''.tmp'') = None"
  using assms by (simp add: writeConfigFile_def os_WriteFile_def os_Rename_def Let_def)

lemma writeConfigFile_rename_failure:
  assumes "rt_RenderNginxConfig rt config (p_templatePath p) = Inr content"
    and "rt_MkdirAll_error rt (filepath_Dir (p_nginxConfigPath p)) = None"
    and "rt_WriteFile_outcome rt (p_nginxConfigPath p @ ''.tmp'') content = Written"
    and "rt_Rename_error rt (p_nginxConfigPath p @ ''.tmp'') (p_nginxConfigPath p) = Some e"
  shows "fst (writeConfigFile rt p config w) = Some (Err (''failed to move config file: '' @ e)) \<and>
         w_files (snd (writeConfigFile rt p config w)) (p_nginxConfigPath p @ ''.tmp'') = None"
  using assms
  by (simp add: writeConfigFile_def os_WriteFile_def os_Rename_def os_Remove_def Let_def)

subsection \<open>Circuit breaker\<close>

lemma int64_wrap_in_range: "- (2 ^ 63) \<le> i \<Longrightarrow> i < 2 ^ 63 \<Longrightarrow> int64_wrap i = i"
  by (simp add: int64_wrap_def)

lemma int64_wrap_largest: "int64_wrap ((2 ^ 63 - 1) + 1) = - (2 ^ 63)"
  by (simp add: int64_wrap_def)

lemma Execute_failing:
  "cb_state cb \<noteq> Open \<Longrightarrow>
   Execute cb now (failing e) later runs =
     (Some (Err e),
      (if int64_wrap (cb_failureCount cb + 1) \<ge> cb_failureThreshold cb
       then cb \<lparr> cb_failureCount := int64_wrap (cb_failureCount cb + 1),
                 cb_lastFailureTime := later, cb_state := Open \<rparr>
       else cb \<lparr> cb_failureCount := int64_wrap (cb_failureCount cb + 1),
                 cb_lastFailureTime := later \<rparr>),
      Suc runs)"
  by (simp add: Execute_def failing_def Let_def)

lemma execute_failures_append:
  "execute_failures cb (xs @ ys) runs =
   execute_failures (fst (execute_failures cb xs runs)) ys (snd (execute_failures cb xs runs))"
  by (induction xs arbitrary: cb runs) (auto split: prod.splits)

text \<open>
  What holds of the claim. With counter and threshold in the range of Go's \<^verbatim>\<open>int\<close>,
  the breaker stays closed and counts below the threshold, and as many failures as the
  threshold says, counted from 0, open it.
\<close>

lemma failures_below_threshold:
  "cb_state cb = Closed \<Longrightarrow> - (2 ^ 63) \<le> cb_failureCount cb \<Longrightarrow>
   cb_failureThreshold cb \<le> 2 ^ 63 - 1 \<Longrightarrow>
   cb_failureCount cb + int (length fs) < cb_failureThreshold cb \<Longrightarrow>
   execute_failures cb fs runs =
     (cb \<lparr> cb_failureCount := cb_failureCount cb + int (length fs),
            cb_lastFailureTime :=
              (if fs = [] then cb_lastFailureTime cb else snd (snd (last fs))) \<rparr>,
      runs + length fs)"
proof (induction fs arbitrary: cb runs)
  case Nil
  then show ?case by simp
next
  case (Cons f fs)
  obtain now e later where f: "f = (now, e, later)"
    by (cases f) auto
  have wrap: "int64_wrap (cb_failureCount cb + 1) = cb_failureCount cb + 1"
    by (rule int64_wrap_in_range) (use Cons.prems in simp_all)
  let ?cb1 = "cb \<lparr> cb_failureCount := cb_failureCount cb + 1, cb_lastFailureTime := later \<rparr>"
  have step: "Execute cb now (failing e) later runs = (Some (Err e), ?cb1, Suc runs)"
    using Cons.prems by (simp add: Execute_failing wrap)
  have "execute_failures ?cb1 fs (Suc runs) =
     (?cb1 \<lparr> cb_failureCount := cb_failureCount ?cb1 + int (length fs),
              cb_lastFailureTime :=
                (if fs = [] then cb_lastFailureTime ?cb1 else snd (snd (last fs))) \<rparr>,
      Suc runs + length fs)"
    by (rule Cons.IH) (use Cons.prems in simp_all)
  then show ?case
    using step f by (simp add: add.assoc)
qed

lemma threshold_failures_open:
  assumes "cb_state cb = Closed" and "cb_failureCount cb = 0" and "1 \<le> cb_failureThreshold cb"
    and "cb_failureThreshold cb \<le> 2 ^ 63 - 1"
    and "int (length fs) = cb_failureThreshold cb"
  shows "cb_state (fst (execute_failures cb fs runs)) = Open \<and>
         snd (execute_failures cb fs runs) = runs + length fs"
proof -
  from assms have "fs \<noteq> []"
    by auto
  then obtain gs f where fs: "fs = gs @ [f]"
    by (metis rev_exhaust)
  obtain now e later where f: "f = (now, e, later)"
    by (cases f) auto
  have below: "execute_failures cb gs runs =
     (cb \<lparr> cb_failureCount := cb_failureCount cb + int (length gs),
            cb_lastFailureTime :=
              (if gs = [] then cb_lastFailureTime cb else snd (snd (last gs))) \<rparr>,
      runs + length gs)"
    by (rule failures_below_threshold) (use assms fs in simp_all)
  have wrap: "int64_wrap (int (length gs) + 1) = int (length gs) + 1"
    by (rule int64_wrap_in_range) (use assms fs in simp_all)
  show ?thesis
    using assms fs f by (simp add: execute_failures_append below Execute_failing wrap)
qed

lemma Execute_open_fails_fast:
  assumes "cb_state cb = Open" and "time_Since now (cb_lastFailureTime cb) \<le> cb_timeout cb"
  shows "Execute cb now operation later w = (Some (Err ''circuit breaker is open''), cb, w)"
  using assms by (simp add: Execute_def)

lemma Execute_open_after_timeout:
  assumes "cb_state cb = Open" and "time_Since now (cb_lastFailureTime cb) > cb_timeout cb"
  shows "Execute cb now operation later w =
         Execute (cb \<lparr> cb_state := HalfOpen, cb_failureCount := 0 \<rparr>) now operation later w"
  using assms by (simp add: Execute_def)

lemma Execute_half_open_success:
  assumes "cb_state cb = HalfOpen" and "operation w = (None, w1)"
  shows "Execute cb now operation later w =
         (None, cb \<lparr> cb_state := Closed, cb_failureCount := 0 \<rparr>, w1)"
  using assms by (simp add: Execute_def)

text \<open>
  A failure in the half-open state is handled as one in the closed state: the counter
  goes up by one, and the breaker opens only if the counter has reached the threshold.
\<close>

lemma Execute_half_open_failure:
  assumes "cb_state cb = HalfOpen" and "operation w = (Some (Err e), w1)"
  shows "Execute cb now operation later w =
         (Some (Err e),
          cb \<lparr> cb_failureCount := int64_wrap (cb_failureCount cb + 1),
               cb_lastFailureTime := later,
               cb_state := (if int64_wrap (cb_failureCount cb + 1) \<ge> cb_failureThreshold cb
                            then Open else HalfOpen) \<rparr>,
          w1)"
  using assms by (simp add: Execute_def Let_def)

lemmas breaker_defs =
  example_breaker_def three_failures_def open_breaker_def half_open_breaker_def second_def
  NewCircuitBreaker_def time_Since_def failing_def succeeding_def int64_wrap_def

text \<open>
  Claim C5 fails on the code. The breaker of the error handlers (three failures, thirty
  seconds) is opened by three failures. The call made 37 seconds after the last
  failure runs in the half-open state and fails, and the breaker is not returned to
  the open state: it stays half-open, with one failure counted against the threshold
  of three, and so does the half-open breaker on any single failure.
\<close>

theorem half_open_failure_stays_half_open:
  "execute_failures example_breaker three_failures 0 = (open_breaker, 3) \<and>
   time_Since (40 * second) (cb_lastFailureTime open_breaker) > cb_timeout open_breaker \<and>
   Execute open_breaker (40 * second) (failing ''connection refused'') (41 * second) (3::nat)
     = (Some (Err ''connection refused''),
        half_open_breaker \<lparr> cb_failureCount := 1, cb_lastFailureTime := 41 * second \<rparr>, 4) \<and>
   Execute half_open_breaker (40 * second) (failing ''connection refused'') (41 * second) (3::nat)
     = (Some (Err ''connection refused''),
        half_open_breaker \<lparr> cb_failureCount := 1, cb_lastFailureTime := 41 * second \<rparr>, 4) \<and>
   cb_state (half_open_breaker \<lparr> cb_failureCount := 1, cb_lastFailureTime := 41 * second \<rparr>)
     = HalfOpen"
  by (simp add: breaker_defs Execute_def Let_def)

end
